theory Spec2Isabelle
  imports Main
begin

unbundle bit_operations_syntax

section \<open>Python values and exceptions\<close>

text \<open>
  Python integers never overflow, so every number of the emulator is an \<open>int\<close>. The
  source's floor operators \<open>%\<close> and \<open>//\<close> are \<open>mod\<close> and \<open>div\<close>; its bitwise
  operators act on two's complement integers of unbounded width, as the bit operations of
  HOL on \<open>int\<close> do, with shifts written \<open>push_bit\<close> and \<open>drop_bit\<close>.
  What the bus returns is an integer or Python's \<open>None\<close> (the PPU's read handler falls
  off its end for every address but 0x2002): an \<open>int option\<close>. Nothing in the program
  catches an exception, so a raise ends the run; it is the left branch of a sum.
\<close>

datatype error =
    IndexError          \<comment> \<open>bytearray index out of range\<close>
  | TypeError           \<comment> \<open>arithmetic or comparison on \<open>None\<close>\<close>
  | ValueError          \<comment> \<open>\<open>int.from_bytes\<close> on an element outside \<open>range(256)\<close>\<close>
  | UnboundLocalError   \<comment> \<open>a handler called with an opcode none of its branches binds \<open>data\<close> for\<close>
  | RecursionError      \<comment> \<open>\<open>get_instruction_at\<close> formatting its message through \<open>_format_instr\<close>\<close>
  | StackFull           \<comment> \<open>\<open>Exception("CPU::stack_push: Stack is full")\<close>\<close>
  | StackEmpty          \<comment> \<open>\<open>Exception("CPU::stack_pop: Stack is empty")\<close>\<close>
  | Die                 \<comment> \<open>\<open>Exception("die")\<close>, raised by \<open>CPU.run\<close> on BRK\<close>
  | NMIRaised           \<comment> \<open>\<open>Exception("")\<close>, raised at the end of \<open>CPU.handle_nmi\<close>\<close>
  | NotImplemented      \<comment> \<open>\<open>CPU.instruction_not_implemented\<close>\<close>

definition bnd :: "'e + 'a \<Rightarrow> ('a \<Rightarrow> 'e + 'b) \<Rightarrow> 'e + 'b" where
  "bnd r f = (case r of Inl e \<Rightarrow> Inl e | Inr v \<Rightarrow> f v)"

definition as_int :: "int option \<Rightarrow> error + int" where
  "as_int v = (case v of None \<Rightarrow> Inl TypeError | Some i \<Rightarrow> Inr i)"

section \<open>byte\_math.py\<close>

definition signed_byte_to_int :: "int \<Rightarrow> nat \<Rightarrow> int" where
  "signed_byte_to_int byte byte_len =
     (let mask = 2 ^ (byte_len - 1)
      in - (byte AND mask) + (byte AND NOT mask))"

section \<open>ppu.py\<close>

definition REGISTERS :: "int list" where
  "REGISTERS = [0x2000, 0x2001, 0x2002, 0x2003, 0x2004, 0x2005, 0x2006, 0x2007, 0x4014]"

definition SCANLINES_PER_FRAME :: int where "SCANLINES_PER_FRAME = 262"
definition CYCLES_PER_SCANLINE :: int where "CYCLES_PER_SCANLINE = 341"
definition CYCLES_PER_FRAME :: int where
  "CYCLES_PER_FRAME = CYCLES_PER_SCANLINE * SCANLINES_PER_FRAME"
definition CYCLE_POSTRENDER :: int where "CYCLE_POSTRENDER = 240 * CYCLES_PER_SCANLINE"
definition CYCLE_VBLANK :: int where "CYCLE_VBLANK = 241 * CYCLES_PER_SCANLINE"

record ppu_state =
  ppu_control :: int
  ppu_mask :: int
  ppu_status :: int
  ppu_cycles :: int

definition PPU_init :: ppu_state where
  "PPU_init = \<lparr>ppu_control = 0x00, ppu_mask = 0x00, ppu_status = 0x00, ppu_cycles = 0\<rparr>"

definition handle_read :: "ppu_state \<Rightarrow> int \<Rightarrow> int option" where
  "handle_read p addr = (if addr = 0x2002 then Some (ppu_status p) else None)"

definition handle_write :: "ppu_state \<Rightarrow> int \<Rightarrow> int \<Rightarrow> ppu_state" where
  "handle_write p addr data =
     (if addr = 0x2000 then p\<lparr>ppu_control := data\<rparr>
      else if addr = 0x2001 then p\<lparr>ppu_mask := data\<rparr>
      else p)"

section \<open>cpu.py: the machine state\<close>

text \<open>
  One record holds what the objects \<open>CPU\<close>, \<open>Flag\<close>, \<open>Memory\<close> and \<open>PPU\<close> hold: the CPU and
  the memory refer to the same PPU object, and there is one of each. \<open>enabled_flags\<close> is
  the list of \<open>Flag\<close>; \<open>mem\<close> is the 65536-byte \<open>bytearray\<close>, indexed as Python indexes it
  (\<open>bytearray_get\<close>, \<open>bytearray_set\<close>). The class attribute \<open>CPU.pf\<close> is never read or
  written and is left out.
\<close>

record cpu =
  sp :: int
  pc :: int
  acc :: int
  x :: int
  y :: int
  cycles :: int
  enabled_flags :: "int list"
  mem :: "int \<Rightarrow> int"
  is_mirror :: bool
  ppu :: ppu_state

definition bytearray_get :: "(int \<Rightarrow> int) \<Rightarrow> int \<Rightarrow> error + int" where
  "bytearray_get m i =
     (if 0 \<le> i \<and> i < 0x10000 then Inr (m i)
      else if - 0x10000 \<le> i \<and> i < 0 then Inr (m (i + 0x10000))
      else Inl IndexError)"

definition bytearray_set :: "(int \<Rightarrow> int) \<Rightarrow> int \<Rightarrow> int \<Rightarrow> error + (int \<Rightarrow> int)" where
  "bytearray_set m i v =
     (if 0 \<le> i \<and> i < 0x10000 then Inr (m(i := v))
      else if - 0x10000 \<le> i \<and> i < 0 then Inr (m(i + 0x10000 := v))
      else Inl IndexError)"

subsection \<open>class Memory\<close>

definition page_num :: "int \<Rightarrow> int" where
  "page_num addr = addr div 0xFF"

definition map_byte :: "bool \<Rightarrow> int \<Rightarrow> int" where
  "map_byte mirror byte =
     (if byte \<ge> 0 \<and> byte \<le> 0x1FFF then byte mod 0x0800
      else if byte \<ge> 0x2000 \<and> byte \<le> 0x3FFF then ((byte - 0x2000) mod 0x08) + 0x2000
      else if mirror \<and> byte \<ge> 0xC000 \<and> byte \<le> 0xFFFF then byte - 0x4000
      else byte)"

definition mem_read :: "cpu \<Rightarrow> int \<Rightarrow> error + int option" where
  "mem_read s byte =
     (let mapped = map_byte (is_mirror s) byte
      in if mapped \<in> set REGISTERS then Inr (handle_read (ppu s) byte)
         else bnd (bytearray_get (mem s) mapped) (\<lambda>v. Inr (Some v)))"

definition mem_write :: "cpu \<Rightarrow> int \<Rightarrow> int \<Rightarrow> error + cpu" where
  "mem_write s byte data =
     (if byte \<ge> 0x8000 then Inr s
      else let mapped = map_byte (is_mirror s) byte
           in if mapped \<in> set REGISTERS then Inr (s\<lparr>ppu := handle_write (ppu s) byte data\<rparr>)
              else bnd (bytearray_set (mem s) mapped (data mod 0x100))
                     (\<lambda>m. Inr (s\<lparr>mem := m\<rparr>)))"

subsection \<open>class Flag\<close>

definition Flag_N :: int where "Flag_N = 128"
definition Flag_V :: int where "Flag_V = 64"
definition Flag_unused :: int where "Flag_unused = 32"
definition Flag_B :: int where "Flag_B = 16"
definition Flag_D :: int where "Flag_D = 8"
definition Flag_I :: int where "Flag_I = 4"
definition Flag_Z :: int where "Flag_Z = 2"
definition Flag_C :: int where "Flag_C = 1"

definition INIT_FLAGS :: "int list" where
  "INIT_FLAGS = [Flag_unused, Flag_I]"

definition VALUES :: "int list" where
  "VALUES = [Flag_N, Flag_V, Flag_unused, Flag_B, Flag_D, Flag_I, Flag_Z, Flag_C]"

definition get_byte :: "int list \<Rightarrow> int" where
  "get_byte fl = sum_list fl"

definition isset :: "int list \<Rightarrow> int \<Rightarrow> bool" where
  "isset fl f = (f \<in> set fl)"

definition set_flag :: "int list \<Rightarrow> int \<Rightarrow> int list" where
  "set_flag fl f = (if \<not> isset fl f then fl @ [f] else fl)"

definition clear :: "int list \<Rightarrow> int \<Rightarrow> int list" where
  "clear fl f = (if isset fl f then remove1 f fl else fl)"

definition toggle :: "int list \<Rightarrow> int \<Rightarrow> int list" where
  "toggle fl f = (if isset fl f then clear fl f else set_flag fl f)"

definition set_if :: "bool \<Rightarrow> int list \<Rightarrow> int \<Rightarrow> int list" where
  "set_if c fl f = (if c then set_flag fl f else fl)"

definition set_byte :: "int list \<Rightarrow> int \<Rightarrow> int list" where
  "set_byte self_flags byte =
     (let fl = INIT_FLAGS;
          fl = set_if (byte AND Flag_N \<noteq> 0) fl Flag_N;
          fl = set_if (byte AND Flag_V \<noteq> 0) fl Flag_V;
          fl = set_if (byte AND Flag_unused \<noteq> 0) fl Flag_unused;
          fl = set_if (byte AND Flag_B \<noteq> 0) fl Flag_B;
          fl = set_if (byte AND Flag_D \<noteq> 0) fl Flag_D;
          fl = set_if (byte AND Flag_I \<noteq> 0) fl Flag_I;
          fl = set_if (byte AND Flag_Z \<noteq> 0) fl Flag_Z;
          fl = set_if (byte AND Flag_C \<noteq> 0) fl Flag_C
      in fl)"

subsection \<open>class CPU: construction, vectors, stack\<close>

definition flag_isset :: "cpu \<Rightarrow> int \<Rightarrow> bool" where
  "flag_isset s f = isset (enabled_flags s) f"

definition flag_set :: "cpu \<Rightarrow> int \<Rightarrow> cpu" where
  "flag_set s f = s\<lparr>enabled_flags := set_flag (enabled_flags s) f\<rparr>"

definition flag_clear :: "cpu \<Rightarrow> int \<Rightarrow> cpu" where
  "flag_clear s f = s\<lparr>enabled_flags := clear (enabled_flags s) f\<rparr>"

definition flag_set_if :: "bool \<Rightarrow> cpu \<Rightarrow> int \<Rightarrow> cpu" where
  "flag_set_if c s f = (if c then flag_set s f else s)"

definition read_word :: "cpu \<Rightarrow> int \<Rightarrow> int \<Rightarrow> error + int" where
  "read_word s lo_addr hi_addr =
     bnd (mem_read s lo_addr) (\<lambda>lo.
     bnd (mem_read s hi_addr) (\<lambda>hi.
     bnd (as_int hi) (\<lambda>h.
     bnd (as_int lo) (\<lambda>l. Inr (l + push_bit 8 h)))))"


definition irq_vector :: "cpu \<Rightarrow> error + int" where
  "irq_vector s = read_word s 0xFFFE 0xFFFF"

definition nmi_vector :: "cpu \<Rightarrow> error + int" where
  "nmi_vector s = read_word s 0xFFFA 0xFFFB"


definition stack_push :: "cpu \<Rightarrow> int \<Rightarrow> error + cpu" where
  "stack_push s val =
     (if sp s < 0 then Inl StackFull
      else bnd (mem_write s (0x100 + sp s) (val mod 0x100))
             (\<lambda>s1. Inr (s1\<lparr>sp := sp s1 - 1\<rparr>)))"

definition stack_pop :: "cpu \<Rightarrow> error + (int option \<times> cpu)" where
  "stack_pop s =
     (if sp s = 0xFF then Inl StackEmpty
      else let s1 = s\<lparr>sp := sp s + 1\<rparr>
           in bnd (mem_read s1 (0x100 + sp s1)) (\<lambda>v. Inr (v, s1)))"


section \<open>opcodes6502.py\<close>

text \<open>
  A mnemonic is the string of the table. An entry is (mnemonic, length, cycles, additional
  cycles if a page boundary is crossed); \<open>instr0\<close> to \<open>instr3\<close> are \<open>instr[0]\<close> to
  \<open>instr[3]\<close>. The table is the source's dictionary in the source's order; the seven
  bytes it leaves out (0x93, 0x9B, 0x9C, 0x9E, 0x9F, 0x8B, 0xAB) have no entry.
\<close>

type_synonym mnemonic = string

type_synonym instr = "mnemonic \<times> int \<times> int \<times> int"

definition instr0 :: "instr \<Rightarrow> mnemonic" where "instr0 i = fst i"
definition instr1 :: "instr \<Rightarrow> int" where "instr1 i = fst (snd i)"
definition instr2 :: "instr \<Rightarrow> int" where "instr2 i = fst (snd (snd i))"
definition instr3 :: "instr \<Rightarrow> int" where "instr3 i = snd (snd (snd i))"

definition opcode_table :: "(int \<times> instr) list" where
  "opcode_table = [
     (0x69, (''ADC'', 2, 2, 0)), (0x65, (''ADC'', 2, 3, 0)), (0x75, (''ADC'', 2, 4, 0)),
     (0x6D, (''ADC'', 3, 4, 0)), (0x7D, (''ADC'', 3, 4, 1)), (0x79, (''ADC'', 3, 4, 1)),
     (0x61, (''ADC'', 2, 6, 0)), (0x71, (''ADC'', 2, 5, 1)), (0x29, (''AND'', 2, 2, 0)),
     (0x25, (''AND'', 2, 3, 0)), (0x35, (''AND'', 2, 4, 0)), (0x2D, (''AND'', 3, 4, 0)),
     (0x3D, (''AND'', 3, 4, 1)), (0x39, (''AND'', 3, 4, 1)), (0x21, (''AND'', 2, 6, 0)),
     (0x31, (''AND'', 2, 5, 1)), (0x0A, (''ASL'', 1, 2, 0)), (0x06, (''ASL'', 2, 5, 0)),
     (0x16, (''ASL'', 2, 6, 0)), (0x0E, (''ASL'', 3, 6, 0)), (0x1E, (''ASL'', 3, 7, 0)),
     (0x24, (''BIT'', 2, 3, 0)), (0x2C, (''BIT'', 3, 4, 0)), (0x10, (''BPL'', 2, 2, 1)),
     (0x30, (''BMI'', 2, 2, 1)), (0x50, (''BVC'', 2, 2, 1)), (0x70, (''BVS'', 2, 2, 1)),
     (0x90, (''BCC'', 2, 2, 1)), (0xB0, (''BCS'', 2, 2, 1)), (0xD0, (''BNE'', 2, 2, 1)),
     (0xF0, (''BEQ'', 2, 2, 1)), (0x00, (''BRK'', 1, 7, 0)), (0xC9, (''CMP'', 2, 2, 0)),
     (0xC5, (''CMP'', 2, 3, 0)), (0xD5, (''CMP'', 2, 4, 0)), (0xCD, (''CMP'', 3, 4, 0)),
     (0xDD, (''CMP'', 3, 4, 1)), (0xD9, (''CMP'', 3, 4, 1)), (0xC1, (''CMP'', 2, 6, 0)),
     (0xD1, (''CMP'', 2, 5, 1)), (0xE0, (''CPX'', 2, 2, 0)), (0xE4, (''CPX'', 2, 3, 0)),
     (0xEC, (''CPX'', 3, 4, 0)), (0xC0, (''CPY'', 2, 2, 0)), (0xC4, (''CPY'', 2, 3, 0)),
     (0xCC, (''CPY'', 3, 4, 0)), (0xC6, (''DEC'', 2, 5, 0)), (0xD6, (''DEC'', 2, 6, 0)),
     (0xCE, (''DEC'', 3, 6, 0)), (0xDE, (''DEC'', 3, 7, 0)), (0x49, (''EOR'', 2, 2, 0)),
     (0x45, (''EOR'', 2, 3, 0)), (0x55, (''EOR'', 2, 4, 0)), (0x4D, (''EOR'', 3, 4, 0)),
     (0x5D, (''EOR'', 3, 4, 1)), (0x59, (''EOR'', 3, 4, 1)), (0x41, (''EOR'', 2, 6, 0)),
     (0x51, (''EOR'', 2, 5, 1)), (0x18, (''CLC'', 1, 2, 0)), (0x38, (''SEC'', 1, 2, 0)),
     (0x58, (''CLI'', 1, 2, 0)), (0x78, (''SEI'', 1, 2, 0)), (0xB8, (''CLV'', 1, 2, 0)),
     (0xD8, (''CLD'', 1, 2, 0)), (0xF8, (''SED'', 1, 2, 0)), (0xE6, (''INC'', 2, 5, 0)),
     (0xF6, (''INC'', 2, 6, 0)), (0xEE, (''INC'', 3, 6, 0)), (0xFE, (''INC'', 3, 7, 0)),
     (0x4C, (''JMP'', 3, 3, 0)), (0x6C, (''JMP'', 3, 5, 0)), (0x20, (''JSR'', 3, 6, 0)),
     (0xA9, (''LDA'', 2, 2, 0)), (0xA5, (''LDA'', 2, 3, 0)), (0xB5, (''LDA'', 2, 4, 0)),
     (0xAD, (''LDA'', 3, 4, 0)), (0xBD, (''LDA'', 3, 4, 1)), (0xB9, (''LDA'', 3, 4, 1)),
     (0xA1, (''LDA'', 2, 6, 0)), (0xB1, (''LDA'', 2, 5, 1)), (0xA2, (''LDX'', 2, 2, 0)),
     (0xA6, (''LDX'', 2, 3, 0)), (0xB6, (''LDX'', 2, 4, 0)), (0xAE, (''LDX'', 3, 4, 0)),
     (0xBE, (''LDX'', 3, 4, 1)), (0xA0, (''LDY'', 2, 2, 0)), (0xA4, (''LDY'', 2, 3, 0)),
     (0xB4, (''LDY'', 2, 4, 0)), (0xAC, (''LDY'', 3, 4, 0)), (0xBC, (''LDY'', 3, 4, 1)),
     (0x4A, (''LSR'', 1, 2, 0)), (0x46, (''LSR'', 2, 5, 0)), (0x56, (''LSR'', 2, 6, 0)),
     (0x4E, (''LSR'', 3, 6, 0)), (0x5E, (''LSR'', 3, 7, 0)), (0xEA, (''NOP'', 1, 2, 0)),
     (0x09, (''ORA'', 2, 2, 0)), (0x05, (''ORA'', 2, 3, 0)), (0x15, (''ORA'', 2, 4, 0)),
     (0x0D, (''ORA'', 3, 4, 0)), (0x1D, (''ORA'', 3, 4, 1)), (0x19, (''ORA'', 3, 4, 1)),
     (0x01, (''ORA'', 2, 6, 0)), (0x11, (''ORA'', 2, 5, 1)), (0xAA, (''TAX'', 1, 2, 0)),
     (0x8A, (''TXA'', 1, 2, 0)), (0xCA, (''DEX'', 1, 2, 0)), (0xE8, (''INX'', 1, 2, 0)),
     (0xA8, (''TAY'', 1, 2, 0)), (0x98, (''TYA'', 1, 2, 0)), (0x88, (''DEY'', 1, 2, 0)),
     (0xC8, (''INY'', 1, 2, 0)), (0x2A, (''ROL'', 1, 2, 0)), (0x26, (''ROL'', 2, 5, 0)),
     (0x36, (''ROL'', 2, 6, 0)), (0x2E, (''ROL'', 3, 6, 0)), (0x3E, (''ROL'', 3, 7, 0)),
     (0x6A, (''ROR'', 1, 2, 0)), (0x66, (''ROR'', 2, 5, 0)), (0x76, (''ROR'', 2, 6, 0)),
     (0x6E, (''ROR'', 3, 6, 0)), (0x7E, (''ROR'', 3, 7, 0)), (0x40, (''RTI'', 1, 6, 0)),
     (0x60, (''RTS'', 1, 6, 0)), (0xE9, (''SBC'', 2, 2, 0)), (0xE5, (''SBC'', 2, 3, 0)),
     (0xF5, (''SBC'', 2, 4, 0)), (0xED, (''SBC'', 3, 4, 0)), (0xFD, (''SBC'', 3, 4, 1)),
     (0xF9, (''SBC'', 3, 4, 1)), (0xE1, (''SBC'', 2, 6, 0)), (0xF1, (''SBC'', 2, 5, 1)),
     (0x85, (''STA'', 2, 3, 0)), (0x95, (''STA'', 2, 4, 0)), (0x8D, (''STA'', 3, 4, 0)),
     (0x9D, (''STA'', 3, 5, 0)), (0x99, (''STA'', 3, 5, 0)), (0x81, (''STA'', 2, 6, 0)),
     (0x91, (''STA'', 2, 6, 0)), (0x9A, (''TXS'', 1, 2, 0)), (0xBA, (''TSX'', 1, 2, 0)),
     (0x48, (''PHA'', 1, 3, 0)), (0x68, (''PLA'', 1, 4, 0)), (0x08, (''PHP'', 1, 3, 0)),
     (0x28, (''PLP'', 1, 4, 0)), (0x86, (''STX'', 2, 3, 0)), (0x96, (''STX'', 2, 4, 0)),
     (0x8E, (''STX'', 3, 4, 0)), (0x84, (''STY'', 2, 3, 0)), (0x94, (''STY'', 2, 4, 0)),
     (0x8C, (''STY'', 3, 4, 0)), (0x07, (''iSLO'', 2, 5, 0)), (0x17, (''iSLO'', 2, 6, 0)),
     (0x03, (''iSLO'', 2, 8, 0)), (0x13, (''iSLO'', 2, 8, 0)), (0x0F, (''iSLO'', 3, 6, 0)),
     (0x1F, (''iSLO'', 3, 7, 0)), (0x1B, (''iSLO'', 3, 7, 0)), (0x27, (''iRLA'', 2, 5, 0)),
     (0x37, (''iRLA'', 2, 6, 0)), (0x23, (''iRLA'', 2, 8, 0)), (0x33, (''iRLA'', 2, 8, 0)),
     (0x2F, (''iRLA'', 3, 6, 0)), (0x3F, (''iRLA'', 3, 7, 0)), (0x3B, (''iRLA'', 3, 7, 0)),
     (0x47, (''iSRE'', 2, 5, 0)), (0x57, (''iSRE'', 2, 6, 0)), (0x43, (''iSRE'', 2, 8, 0)),
     (0x53, (''iSRE'', 2, 8, 0)), (0x4F, (''iSRE'', 3, 6, 0)), (0x5F, (''iSRE'', 3, 7, 0)),
     (0x5B, (''iSRE'', 3, 7, 0)), (0x67, (''iRRA'', 2, 5, 0)), (0x77, (''iRRA'', 2, 6, 0)),
     (0x63, (''iRRA'', 2, 8, 0)), (0x73, (''iRRA'', 2, 8, 0)), (0x6F, (''iRRA'', 3, 6, 0)),
     (0x7F, (''iRRA'', 3, 7, 0)), (0x7B, (''iRRA'', 3, 7, 0)), (0x87, (''iSAX'', 2, 3, 0)),
     (0x97, (''iSAX'', 2, 4, 0)), (0x83, (''iSAX'', 2, 6, 0)), (0x8F, (''iSAX'', 3, 4, 0)),
     (0xA7, (''iLAX'', 2, 3, 0)), (0xB7, (''iLAX'', 2, 4, 0)), (0xA3, (''iLAX'', 2, 6, 0)),
     (0xB3, (''iLAX'', 2, 5, 1)), (0xAF, (''iLAX'', 3, 4, 0)), (0xBF, (''iLAX'', 3, 4, 1)),
     (0xC7, (''iDCP'', 2, 5, 0)), (0xD7, (''iDCP'', 2, 6, 0)), (0xC3, (''iDCP'', 2, 8, 0)),
     (0xD3, (''iDCP'', 2, 8, 0)), (0xCF, (''iDCP'', 3, 6, 0)), (0xDF, (''iDCP'', 3, 7, 0)),
     (0xDB, (''iDCP'', 3, 7, 0)), (0xE7, (''iISC'', 2, 5, 0)), (0xF7, (''iISC'', 2, 6, 0)),
     (0xE3, (''iISC'', 2, 8, 0)), (0xF3, (''iISC'', 2, 8, 0)), (0xEF, (''iISC'', 3, 6, 0)),
     (0xFF, (''iISC'', 3, 7, 0)), (0xFB, (''iISC'', 3, 7, 0)), (0x0B, (''iANC'', 2, 2, 0)),
     (0x2B, (''iANC'', 2, 2, 0)), (0x4B, (''iALR'', 2, 2, 0)), (0x6B, (''iARR'', 2, 2, 0)),
     (0xCB, (''iSBX'', 2, 2, 0)), (0xEB, (''iSBC'', 2, 2, 0)), (0xBB, (''iLAS'', 3, 4, 1)),
     (0x1A, (''iNOP'', 1, 2, 0)), (0x3A, (''iNOP'', 1, 2, 0)), (0x5A, (''iNOP'', 1, 2, 0)),
     (0x7A, (''iNOP'', 1, 2, 0)), (0xDA, (''iNOP'', 1, 2, 0)), (0xFA, (''iNOP'', 1, 2, 0)),
     (0x80, (''iNOP'', 2, 2, 0)), (0x82, (''iNOP'', 2, 2, 0)), (0xC2, (''iNOP'', 2, 2, 0)),
     (0xE2, (''iNOP'', 2, 2, 0)), (0x89, (''iNOP'', 2, 2, 0)), (0x04, (''iNOP'', 2, 3, 0)),
     (0x44, (''iNOP'', 2, 3, 0)), (0x64, (''iNOP'', 2, 3, 0)), (0x14, (''iNOP'', 2, 4, 0)),
     (0x34, (''iNOP'', 2, 4, 0)), (0x54, (''iNOP'', 2, 4, 0)), (0x74, (''iNOP'', 2, 4, 0)),
     (0xD4, (''iNOP'', 2, 4, 0)), (0xF4, (''iNOP'', 2, 4, 0)), (0x0C, (''iNOP'', 3, 4, 0)),
     (0x1C, (''iNOP'', 3, 4, 1)), (0x3C, (''iNOP'', 3, 4, 1)), (0x5C, (''iNOP'', 3, 4, 1)),
     (0x7C, (''iNOP'', 3, 4, 1)), (0xDC, (''iNOP'', 3, 4, 1)), (0xFC, (''iNOP'', 3, 4, 1)),
     (0x02, (''iJAM'', 1, 0, 0)), (0x12, (''iJAM'', 1, 0, 0)), (0x22, (''iJAM'', 1, 0, 0)),
     (0x32, (''iJAM'', 1, 0, 0)), (0x42, (''iJAM'', 1, 0, 0)), (0x52, (''iJAM'', 1, 0, 0)),
     (0x62, (''iJAM'', 1, 0, 0)), (0x72, (''iJAM'', 1, 0, 0)), (0x92, (''iJAM'', 1, 0, 0)),
     (0xB2, (''iJAM'', 1, 0, 0)), (0xD2, (''iJAM'', 1, 0, 0)), (0xF2, (''iJAM'', 1, 0, 0))
   ]"

definition opcodes :: "int \<Rightarrow> instr option" where
  "opcodes = map_of opcode_table"

section \<open>cpu\_helper.py\<close>

definition imm :: "int \<Rightarrow> int" where
  "imm val = val"

definition zp :: "int \<Rightarrow> cpu \<Rightarrow> error + int option" where
  "zp addr s = mem_read s (addr mod 0x100)"

definition zpx :: "int \<Rightarrow> cpu \<Rightarrow> int \<Rightarrow> error + int option" where
  "zpx addr s xv = mem_read s ((addr + xv) mod 0x100)"

definition abs_h :: "int \<Rightarrow> cpu \<Rightarrow> error + int option" where
  "abs_h addr s = mem_read s addr"

definition absxy :: "int \<Rightarrow> cpu \<Rightarrow> int \<Rightarrow> error + (int option \<times> bool)" where
  "absxy addr s xv =
     (let pc = ((addr AND 0xFF) + xv > 0xFF)
      in bnd (mem_read s (addr + xv)) (\<lambda>v. Inr (v, pc)))"

text \<open>
  \<open>read_pointer\<close> is the three lines that \<open>indx\<close>, \<open>indy\<close> and the handlers repeat:
  \<open>lower = mem.read(addr % 0x100)\<close>, \<open>upper = mem.read((addr + 1) % 0x100)\<close>,
  \<open>addr = (upper << 8) + lower\<close>. The shift is evaluated first, so a \<open>None\<close> upper byte
  raises before a \<open>None\<close> lower byte does.
\<close>

definition read_pointer :: "cpu \<Rightarrow> int \<Rightarrow> error + (int \<times> int)" where
  "read_pointer s addr =
     bnd (mem_read s (addr mod 0x100)) (\<lambda>lower.
     bnd (mem_read s ((addr + 1) mod 0x100)) (\<lambda>upper.
     bnd (as_int upper) (\<lambda>u.
     bnd (as_int lower) (\<lambda>l. Inr (push_bit 8 u + l, l)))))"

definition indx :: "int \<Rightarrow> cpu \<Rightarrow> int \<Rightarrow> error + int option" where
  "indx addr s xv =
     bnd (read_pointer s (addr + xv)) (\<lambda>(addr, lower). mem_read s addr)"

definition indy :: "int \<Rightarrow> cpu \<Rightarrow> int \<Rightarrow> error + (int option \<times> bool)" where
  "indy addr s yv =
     bnd (read_pointer s addr) (\<lambda>(addr, lower).
       let addr = addr + yv;
           pc = (lower + yv > 0xFF)
       in bnd (mem_read s addr) (\<lambda>v. Inr (v, pc)))"


section \<open>cpu.py: the instruction handlers\<close>

text \<open>
  A handler mutates the CPU and returns the pair (new PC, new cycle count), which
  \<open>CPU.run\<close> assigns; here it returns the pair and the mutated state, or the exception.
  \<open>index_addr\<close> and \<open>deref_addr\<close> are the address prologue most handlers repeat, with the
  handler's opcode bytes as parameters: add X for the bytes of \<open>x_ops\<close>, wrapping inside
  page 0 for \<open>zp_op\<close> (\<open>index_by\<close>, which LDX, STX and others use with Y); add Y for the
  bytes of \<open>y_ops\<close>; follow the zero-page pointer for
  the indexed-indirect byte; follow it and add Y for the indirect-indexed byte.
\<close>

type_synonym outcome = "error + (int \<times> int \<times> cpu)"

definition index_by :: "int \<Rightarrow> int \<Rightarrow> int \<Rightarrow> int list \<Rightarrow> int \<Rightarrow> int" where
  "index_by reg byte addr ops zp_op =
     (if byte \<in> set ops
      then (if byte = zp_op then (addr + reg) mod 0x100 else addr + reg)
      else addr)"

definition index_addr :: "cpu \<Rightarrow> int \<Rightarrow> int \<Rightarrow> int list \<Rightarrow> int \<Rightarrow> int list \<Rightarrow> int" where
  "index_addr s byte addr x_ops zp_op y_ops =
     (let addr = index_by (x s) byte addr x_ops zp_op
      in if byte \<in> set y_ops then addr + y s else addr)"

definition deref_addr :: "cpu \<Rightarrow> int \<Rightarrow> int \<Rightarrow> int \<Rightarrow> int \<Rightarrow> error + int" where
  "deref_addr s byte addr indx_op indy_op =
     bnd (if byte = indx_op then bnd (read_pointer s addr) (\<lambda>(a, lower). Inr a)
          else Inr addr) (\<lambda>addr.
     if byte = indy_op then bnd (read_pointer s addr) (\<lambda>(a, lower). Inr (a + y s))
     else Inr addr)"

definition page_penalty :: "cpu \<Rightarrow> instr \<Rightarrow> int \<Rightarrow> int" where
  "page_penalty s instr addr =
     instr3 instr * of_bool (page_num (pc s) \<noteq> page_num addr)"

definition adc_core :: "cpu \<Rightarrow> int \<Rightarrow> cpu" where
  "adc_core s data =
     (let old_acc = acc s;
          s = s\<lparr>acc := acc s + (data + of_bool (flag_isset s Flag_C))\<rparr>;
          s = flag_clear s Flag_N;
          s = flag_clear s Flag_Z;
          s = flag_clear s Flag_C;
          s = flag_clear s Flag_V;
          s = flag_set_if (((old_acc XOR acc s) AND (data XOR acc s)) AND 0x80 \<noteq> 0) s Flag_V;
          s = flag_set_if (acc s \<ge> 256) s Flag_C;
          s = flag_set_if (acc s AND 128 \<noteq> 0) s Flag_N;
          s = s\<lparr>acc := acc s mod 0x100\<rparr>;
          s = flag_set_if (acc s = 0) s Flag_Z
      in s)"

definition instruction_ADC :: "cpu \<Rightarrow> int \<Rightarrow> instr \<Rightarrow> int \<Rightarrow> outcome" where
  "instruction_ADC s byte instr addr =
     bnd (if byte = 0x69 then Inr (Some (imm addr), False)
          else if byte = 0x65 then bnd (zp addr s) (\<lambda>d. Inr (d, False))
          else if byte = 0x75 then bnd (zpx addr s (x s)) (\<lambda>d. Inr (d, False))
          else if byte = 0x6D then bnd (abs_h addr s) (\<lambda>d. Inr (d, False))
          else if byte = 0x7D then absxy addr s (x s)
          else if byte = 0x79 then absxy addr s (y s)
          else if byte = 0x61 then bnd (indx addr s (x s)) (\<lambda>d. Inr (d, False))
          else if byte = 0x71 then indy addr s (y s)
          else Inl UnboundLocalError) (\<lambda>(data, pbc).
     bnd (as_int data) (\<lambda>data.
       let s = adc_core s data
       in Inr (pc s + instr1 instr, cycles s + instr2 instr + instr3 instr * of_bool pbc, s)))"

definition instruction_AND :: "cpu \<Rightarrow> int \<Rightarrow> instr \<Rightarrow> int \<Rightarrow> outcome" where
  "instruction_AND s byte instr addr =
     (let s = flag_clear s Flag_N;
          s = flag_clear s Flag_Z;
          addr = index_addr s byte addr [0x35, 0x3D, 0x21] 0x35 [0x39]
      in bnd (deref_addr s byte addr 0x21 0x31) (\<lambda>addr.
         bnd (if byte \<noteq> 0x29 then bnd (mem_read s (addr mod 0x10000)) as_int
              else Inr addr) (\<lambda>data.
           let s = s\<lparr>acc := acc s AND data\<rparr>;
               s = flag_set_if (acc s = 0) s Flag_Z;
               s = flag_set_if (acc s \<ge> 128) s Flag_N
           in Inr (pc s + instr1 instr, cycles s + instr2 instr + page_penalty s instr addr, s))))"

definition instruction_ASL :: "cpu \<Rightarrow> int \<Rightarrow> instr \<Rightarrow> int \<Rightarrow> outcome" where
  "instruction_ASL s byte instr addr =
     (let s = flag_clear s Flag_N;
          s = flag_clear s Flag_Z;
          s = flag_clear s Flag_C;
          addr = index_addr s byte addr [0x16, 0x1E] 0x16 []
      in if byte = 0x0A then
           (let s = flag_set_if (acc s AND 0x80 \<noteq> 0) s Flag_C;
                s = s\<lparr>acc := push_bit 1 (acc s)\<rparr>;
                s = s\<lparr>acc := acc s mod 0x100\<rparr>;
                s = flag_set_if (acc s AND 0x80 \<noteq> 0) s Flag_N;
                s = flag_set_if (acc s = 0) s Flag_Z
            in Inr (pc s + instr1 instr, cycles s + instr2 instr, s))
         else
           bnd (bnd (mem_read s addr) as_int) (\<lambda>data.
             let s = flag_set_if (data AND 0x80 \<noteq> 0) s Flag_C
             in bnd (mem_write s addr (push_bit 1 data mod 0x100)) (\<lambda>s.
                bnd (bnd (mem_read s addr) as_int) (\<lambda>v1.
                  let s = flag_set_if (v1 AND 0x80 \<noteq> 0) s Flag_N
                  in bnd (mem_read s addr) (\<lambda>v2.
                       let s = flag_set_if (v2 = Some 0) s Flag_Z
                       in Inr (pc s + instr1 instr, cycles s + instr2 instr, s))))))"

text \<open>
  The eight branch handlers are one text with eight conditions: \<open>branch\<close> is that text.
\<close>

definition branch :: "bool \<Rightarrow> cpu \<Rightarrow> instr \<Rightarrow> int \<Rightarrow> outcome" where
  "branch cond s instr addr =
     (let add_cycles = instr2 instr;
          new_pc = pc s + instr1 instr
      in if cond then
           (let new_pc = new_pc + signed_byte_to_int addr 8;
                add_cycles = add_cycles + 1;
                add_cycles = (if page_num (pc s) \<noteq> page_num new_pc
                              then add_cycles + instr3 instr else add_cycles)
            in Inr (new_pc, cycles s + add_cycles, s))
         else Inr (new_pc, cycles s + add_cycles, s))"

definition instruction_BCC :: "cpu \<Rightarrow> int \<Rightarrow> instr \<Rightarrow> int \<Rightarrow> outcome" where
  "instruction_BCC s byte instr addr = branch (\<not> flag_isset s Flag_C) s instr addr"

definition instruction_BCS :: "cpu \<Rightarrow> int \<Rightarrow> instr \<Rightarrow> int \<Rightarrow> outcome" where
  "instruction_BCS s byte instr addr = branch (flag_isset s Flag_C) s instr addr"

definition instruction_BEQ :: "cpu \<Rightarrow> int \<Rightarrow> instr \<Rightarrow> int \<Rightarrow> outcome" where
  "instruction_BEQ s byte instr addr = branch (flag_isset s Flag_Z) s instr addr"

definition instruction_BIT :: "cpu \<Rightarrow> int \<Rightarrow> instr \<Rightarrow> int \<Rightarrow> outcome" where
  "instruction_BIT s byte instr addr =
     (let s = flag_clear s Flag_N;
          s = flag_clear s Flag_V;
          s = flag_clear s Flag_Z
      in bnd (bnd (mem_read s addr) as_int) (\<lambda>data.
           let s = flag_set_if (acc s AND data = 0) s Flag_Z;
               s = flag_set_if (data AND 128 \<noteq> 0) s Flag_N;
               s = flag_set_if (data AND 64 \<noteq> 0) s Flag_V
           in Inr (pc s + instr1 instr, cycles s + instr2 instr, s)))"

definition instruction_BMI :: "cpu \<Rightarrow> int \<Rightarrow> instr \<Rightarrow> int \<Rightarrow> outcome" where
  "instruction_BMI s byte instr addr = branch (flag_isset s Flag_N) s instr addr"

definition instruction_BNE :: "cpu \<Rightarrow> int \<Rightarrow> instr \<Rightarrow> int \<Rightarrow> outcome" where
  "instruction_BNE s byte instr addr = branch (\<not> flag_isset s Flag_Z) s instr addr"

definition instruction_BPL :: "cpu \<Rightarrow> int \<Rightarrow> instr \<Rightarrow> int \<Rightarrow> outcome" where
  "instruction_BPL s byte instr addr = branch (\<not> flag_isset s Flag_N) s instr addr"

definition instruction_BRK :: "cpu \<Rightarrow> int \<Rightarrow> instr \<Rightarrow> int \<Rightarrow> outcome" where
  "instruction_BRK s byte instr addr =
     (let tostack = pc s + instr1 instr + 2
      in bnd (stack_push s (drop_bit 8 tostack)) (\<lambda>s.
         bnd (stack_push s (tostack AND 0xFF)) (\<lambda>s.
         bnd (stack_push s (get_byte (enabled_flags s) OR Flag_B)) (\<lambda>s.
           let s = flag_set s Flag_B
           in bnd (nmi_vector s) (\<lambda>v. Inr (v, cycles s + instr2 instr, s))))))"

definition instruction_BVC :: "cpu \<Rightarrow> int \<Rightarrow> instr \<Rightarrow> int \<Rightarrow> outcome" where
  "instruction_BVC s byte instr addr = branch (\<not> flag_isset s Flag_V) s instr addr"

definition instruction_BVS :: "cpu \<Rightarrow> int \<Rightarrow> instr \<Rightarrow> int \<Rightarrow> outcome" where
  "instruction_BVS s byte instr addr = branch (flag_isset s Flag_V) s instr addr"

definition instruction_CLC :: "cpu \<Rightarrow> int \<Rightarrow> instr \<Rightarrow> int \<Rightarrow> outcome" where
  "instruction_CLC s byte instr addr =
     (let s = flag_clear s Flag_C in Inr (pc s + instr1 instr, cycles s + instr2 instr, s))"

definition instruction_CLD :: "cpu \<Rightarrow> int \<Rightarrow> instr \<Rightarrow> int \<Rightarrow> outcome" where
  "instruction_CLD s byte instr addr =
     (let s = flag_clear s Flag_D in Inr (pc s + instr1 instr, cycles s + instr2 instr, s))"

definition instruction_CLI :: "cpu \<Rightarrow> int \<Rightarrow> instr \<Rightarrow> int \<Rightarrow> outcome" where
  "instruction_CLI s byte instr addr =
     (let s = flag_clear s Flag_I in Inr (pc s + instr1 instr, cycles s + instr2 instr, s))"

definition instruction_CLV :: "cpu \<Rightarrow> int \<Rightarrow> instr \<Rightarrow> int \<Rightarrow> outcome" where
  "instruction_CLV s byte instr addr =
     (let s = flag_clear s Flag_V in Inr (pc s + instr1 instr, cycles s + instr2 instr, s))"

definition instruction_CMP :: "cpu \<Rightarrow> int \<Rightarrow> instr \<Rightarrow> int \<Rightarrow> outcome" where
  "instruction_CMP s byte instr addr =
     (let s = flag_clear s Flag_N;
          s = flag_clear s Flag_Z;
          s = flag_clear s Flag_C;
          addr = index_addr s byte addr [0xD5, 0xDD, 0xC1] 0xD5 [0xD9]
      in bnd (deref_addr s byte addr 0xC1 0xD1) (\<lambda>addr.
         bnd (if byte \<noteq> 0xC9 then bnd (mem_read s (addr mod 0x10000)) as_int
              else Inr addr) (\<lambda>data.
           let s = flag_set_if (acc s \<ge> data) s Flag_C;
               s = flag_set_if (acc s = data) s Flag_Z;
               s = flag_set_if (((acc s - data) mod 0x100) AND 128 \<noteq> 0) s Flag_N
           in Inr (pc s + instr1 instr, cycles s + instr2 instr + page_penalty s instr addr, s))))"

definition instruction_CPX :: "cpu \<Rightarrow> int \<Rightarrow> instr \<Rightarrow> int \<Rightarrow> outcome" where
  "instruction_CPX s byte instr addr =
     (let s = flag_clear s Flag_N;
          s = flag_clear s Flag_Z;
          s = flag_clear s Flag_C
      in bnd (if byte \<noteq> 0xE0 then bnd (mem_read s (addr mod 0x10000)) as_int
              else Inr addr) (\<lambda>data.
           let s = flag_set_if (x s \<ge> data) s Flag_C;
               s = flag_set_if (x s = data) s Flag_Z;
               s = flag_set_if ((x s - data) AND 128 \<noteq> 0) s Flag_N
           in Inr (pc s + instr1 instr, cycles s + instr2 instr, s)))"

definition instruction_CPY :: "cpu \<Rightarrow> int \<Rightarrow> instr \<Rightarrow> int \<Rightarrow> outcome" where
  "instruction_CPY s byte instr addr =
     (let s = flag_clear s Flag_N;
          s = flag_clear s Flag_Z;
          s = flag_clear s Flag_C
      in bnd (if byte \<noteq> 0xC0 then bnd (mem_read s (addr mod 0x10000)) as_int
              else Inr addr) (\<lambda>data.
           let s = flag_set_if (y s \<ge> data) s Flag_C;
               s = flag_set_if (y s = data) s Flag_Z;
               s = flag_set_if ((y s - data) AND 128 \<noteq> 0) s Flag_N
           in Inr (pc s + instr1 instr, cycles s + instr2 instr, s)))"


definition instruction_DEC :: "cpu \<Rightarrow> int \<Rightarrow> instr \<Rightarrow> int \<Rightarrow> outcome" where
  "instruction_DEC s byte instr addr =
     (let s = flag_clear s Flag_N;
          s = flag_clear s Flag_Z;
          addr = index_addr s byte addr [0xD6, 0xDE] 0xD6 []
      in bnd (bnd (mem_read s addr) as_int) (\<lambda>d.
         bnd (mem_write s addr ((d - 1) mod 0x100)) (\<lambda>s.
         bnd (mem_read s addr) (\<lambda>v1.
           let s = flag_set_if (v1 = Some 0) s Flag_Z
           in bnd (bnd (mem_read s addr) as_int) (\<lambda>v2.
                let s = flag_set_if (v2 AND 0x80 \<noteq> 0) s Flag_N
                in Inr (pc s + instr1 instr, cycles s + instr2 instr, s))))))"

definition instruction_DEX :: "cpu \<Rightarrow> int \<Rightarrow> instr \<Rightarrow> int \<Rightarrow> outcome" where
  "instruction_DEX s byte instr addr =
     (let s = flag_clear s Flag_N;
          s = flag_clear s Flag_Z;
          s = s\<lparr>x := x s - 1\<rparr>;
          s = s\<lparr>x := x s mod 0x100\<rparr>;
          s = flag_set_if (x s = 0) s Flag_Z;
          s = flag_set_if (x s AND 0x80 \<noteq> 0) s Flag_N
      in Inr (pc s + instr1 instr, cycles s + instr2 instr, s))"

definition instruction_DEY :: "cpu \<Rightarrow> int \<Rightarrow> instr \<Rightarrow> int \<Rightarrow> outcome" where
  "instruction_DEY s byte instr addr =
     (let s = flag_clear s Flag_N;
          s = flag_clear s Flag_Z;
          s = s\<lparr>y := y s - 1\<rparr>;
          s = s\<lparr>y := y s mod 0x100\<rparr>;
          s = flag_set_if (y s = 0) s Flag_Z;
          s = flag_set_if (y s AND 0x80 \<noteq> 0) s Flag_N
      in Inr (pc s + instr1 instr, cycles s + instr2 instr, s))"

definition instruction_EOR :: "cpu \<Rightarrow> int \<Rightarrow> instr \<Rightarrow> int \<Rightarrow> outcome" where
  "instruction_EOR s byte instr addr =
     (let s = flag_clear s Flag_N;
          s = flag_clear s Flag_Z;
          addr = index_addr s byte addr [0x55, 0x5D, 0x41] 0x55 [0x59]
      in bnd (deref_addr s byte addr 0x41 0x51) (\<lambda>addr.
         bnd (if byte \<noteq> 0x49 then bnd (mem_read s (addr mod 0x10000)) as_int
              else Inr addr) (\<lambda>data.
           let s = s\<lparr>acc := acc s XOR data\<rparr>;
               s = flag_set_if (acc s = 0) s Flag_Z;
               s = flag_set_if (acc s \<ge> 128) s Flag_N
           in Inr (pc s + instr1 instr, cycles s + instr2 instr + page_penalty s instr addr, s))))"

definition instruction_INC :: "cpu \<Rightarrow> int \<Rightarrow> instr \<Rightarrow> int \<Rightarrow> outcome" where
  "instruction_INC s byte instr addr =
     (let s = flag_clear s Flag_N;
          s = flag_clear s Flag_Z;
          addr = index_addr s byte addr [0xF6, 0xFE] 0xF6 []
      in bnd (bnd (mem_read s addr) as_int) (\<lambda>d.
         bnd (mem_write s addr ((d + 1) mod 0x100)) (\<lambda>s.
         bnd (mem_read s addr) (\<lambda>v1.
           let s = flag_set_if (v1 = Some 0) s Flag_Z
           in bnd (bnd (mem_read s addr) as_int) (\<lambda>v2.
                let s = flag_set_if (v2 AND 0x80 \<noteq> 0) s Flag_N
                in Inr (pc s + instr1 instr, cycles s + instr2 instr, s))))))"

definition instruction_INX :: "cpu \<Rightarrow> int \<Rightarrow> instr \<Rightarrow> int \<Rightarrow> outcome" where
  "instruction_INX s byte instr addr =
     (let s = flag_clear s Flag_N;
          s = flag_clear s Flag_Z;
          s = s\<lparr>x := x s + 1\<rparr>;
          s = s\<lparr>x := x s mod 0x100\<rparr>;
          s = flag_set_if (x s = 0) s Flag_Z;
          s = flag_set_if (x s AND 0x80 \<noteq> 0) s Flag_N
      in Inr (pc s + instr1 instr, cycles s + instr2 instr, s))"

definition instruction_INY :: "cpu \<Rightarrow> int \<Rightarrow> instr \<Rightarrow> int \<Rightarrow> outcome" where
  "instruction_INY s byte instr addr =
     (let s = flag_clear s Flag_N;
          s = flag_clear s Flag_Z;
          s = s\<lparr>y := y s + 1\<rparr>;
          s = s\<lparr>y := y s mod 0x100\<rparr>;
          s = flag_set_if (y s = 0) s Flag_Z;
          s = flag_set_if (y s AND 0x80 \<noteq> 0) s Flag_N
      in Inr (pc s + instr1 instr, cycles s + instr2 instr, s))"

definition instruction_JMP :: "cpu \<Rightarrow> int \<Rightarrow> instr \<Rightarrow> int \<Rightarrow> outcome" where
  "instruction_JMP s byte instr addr =
     bnd (if byte = 0x4C then Inr addr
          else
            (let broken_addr = (addr AND 0xFF00) + ((addr + 1) AND 0x00FF)
             in bnd (mem_read s addr) (\<lambda>low.
                bnd (mem_read s broken_addr) (\<lambda>high.
                bnd (as_int high) (\<lambda>h.
                bnd (as_int low) (\<lambda>l. Inr (push_bit 8 h + l))))))) (\<lambda>new_pc.
     Inr (new_pc, cycles s + instr2 instr, s))"

definition instruction_JSR :: "cpu \<Rightarrow> int \<Rightarrow> instr \<Rightarrow> int \<Rightarrow> outcome" where
  "instruction_JSR s byte instr addr =
     (let tostack = pc s + instr1 instr - 1
      in bnd (stack_push s (drop_bit 8 tostack)) (\<lambda>s.
         bnd (stack_push s (tostack AND 0xFF)) (\<lambda>s.
           Inr (addr, cycles s + instr2 instr, s))))"

definition instruction_LDA :: "cpu \<Rightarrow> int \<Rightarrow> instr \<Rightarrow> int \<Rightarrow> outcome" where
  "instruction_LDA s byte instr addr =
     (let s = flag_clear s Flag_N;
          s = flag_clear s Flag_Z;
          addr = index_addr s byte addr [0xB5, 0xBD, 0xA1] 0xB5 [0xB9]
      in bnd (deref_addr s byte addr 0xA1 0xB1) (\<lambda>addr.
         bnd (if byte \<noteq> 0xA9 then bnd (mem_read s (addr mod 0x10000)) as_int
              else Inr addr) (\<lambda>data.
           let s = s\<lparr>acc := data\<rparr>;
               s = flag_set_if (acc s = 0) s Flag_Z;
               s = flag_set_if (acc s \<ge> 128) s Flag_N
           in Inr (pc s + instr1 instr, cycles s + instr2 instr + page_penalty s instr addr, s))))"

definition instruction_LDX :: "cpu \<Rightarrow> int \<Rightarrow> instr \<Rightarrow> int \<Rightarrow> outcome" where
  "instruction_LDX s byte instr addr =
     (let s = flag_clear s Flag_N;
          s = flag_clear s Flag_Z;
          addr = index_by (y s) byte addr [0xB6, 0xBE] 0xB6
      in bnd (if byte \<noteq> 0xA2 then bnd (mem_read s addr) as_int else Inr addr) (\<lambda>data.
           let s = s\<lparr>x := data\<rparr>;
               s = flag_set_if (x s = 0) s Flag_Z;
               s = flag_set_if (x s \<ge> 0x80) s Flag_N
           in Inr (pc s + instr1 instr, cycles s + instr2 instr + page_penalty s instr addr, s)))"

definition instruction_LDY :: "cpu \<Rightarrow> int \<Rightarrow> instr \<Rightarrow> int \<Rightarrow> outcome" where
  "instruction_LDY s byte instr addr =
     (let s = flag_clear s Flag_N;
          s = flag_clear s Flag_Z;
          addr = index_by (x s) byte addr [0xB4, 0xBC] 0xB4
      in bnd (if byte \<noteq> 0xA0 then bnd (mem_read s addr) as_int else Inr addr) (\<lambda>data.
           let s = s\<lparr>y := data\<rparr>;
               s = flag_set_if (y s = 0) s Flag_Z;
               s = flag_set_if (y s \<ge> 0x80) s Flag_N
           in Inr (pc s + instr1 instr, cycles s + instr2 instr + page_penalty s instr addr, s)))"

text \<open>
  The shifts and rotates work on the accumulator or on memory; in the memory case the
  new value is read back from the bus after the write (\<open>new_data = self.mem.read(addr)\<close>),
  so it is an \<open>int option\<close> in both cases. \<open>shift_flags\<close> is their common tail:
  C from the old value, Z and N from the new one.
\<close>

definition shift_flags :: "cpu \<Rightarrow> bool \<Rightarrow> int option \<Rightarrow> error + cpu" where
  "shift_flags s carry new_data =
     (let s = flag_set_if carry s Flag_C;
          s = flag_set_if (new_data = Some 0) s Flag_Z
      in bnd (as_int new_data) (\<lambda>n. Inr (flag_set_if (n AND 0x80 \<noteq> 0) s Flag_N)))"

definition instruction_LSR :: "cpu \<Rightarrow> int \<Rightarrow> instr \<Rightarrow> int \<Rightarrow> outcome" where
  "instruction_LSR s byte instr addr =
     (let s = flag_clear s Flag_N;
          s = flag_clear s Flag_Z;
          s = flag_clear s Flag_C;
          addr = index_addr s byte addr [0x56, 0x5E] 0x56 []
      in bnd (if byte = 0x4A then
                (let old_data = acc s;
                     s = s\<lparr>acc := drop_bit 1 (acc s)\<rparr>
                 in Inr (old_data, Some (acc s), s))
              else
                bnd (bnd (mem_read s addr) as_int) (\<lambda>old_data.
                bnd (mem_write s addr (drop_bit 1 old_data)) (\<lambda>s.
                bnd (mem_read s addr) (\<lambda>new_data. Inr (old_data, new_data, s)))))
           (\<lambda>(old_data, new_data, s).
         bnd (shift_flags s (old_data AND 0x01 \<noteq> 0) new_data) (\<lambda>s.
           Inr (pc s + instr1 instr, cycles s + instr2 instr + page_penalty s instr addr, s))))"

definition instruction_NOP :: "cpu \<Rightarrow> int \<Rightarrow> instr \<Rightarrow> int \<Rightarrow> outcome" where
  "instruction_NOP s byte instr addr = Inr (pc s + instr1 instr, cycles s + instr2 instr, s)"

definition instruction_ORA :: "cpu \<Rightarrow> int \<Rightarrow> instr \<Rightarrow> int \<Rightarrow> outcome" where
  "instruction_ORA s byte instr addr =
     (let s = flag_clear s Flag_N;
          s = flag_clear s Flag_Z;
          addr = index_addr s byte addr [0x15, 0x1D, 0x01] 0x15 [0x19]
      in bnd (deref_addr s byte addr 0x01 0x11) (\<lambda>addr.
         bnd (if byte \<noteq> 0x09 then bnd (mem_read s (addr mod 0x10000)) as_int
              else Inr addr) (\<lambda>data.
           let s = s\<lparr>acc := acc s OR data\<rparr>;
               s = flag_set_if (acc s = 0) s Flag_Z;
               s = flag_set_if (acc s \<ge> 128) s Flag_N
           in Inr (pc s + instr1 instr, cycles s + instr2 instr + page_penalty s instr addr, s))))"

definition instruction_PHA :: "cpu \<Rightarrow> int \<Rightarrow> instr \<Rightarrow> int \<Rightarrow> outcome" where
  "instruction_PHA s byte instr addr =
     bnd (stack_push s (acc s)) (\<lambda>s.
       Inr (pc s + instr1 instr, cycles s + instr2 instr, s))"

definition instruction_PHP :: "cpu \<Rightarrow> int \<Rightarrow> instr \<Rightarrow> int \<Rightarrow> outcome" where
  "instruction_PHP s byte instr addr =
     bnd (stack_push s (get_byte (enabled_flags s) OR Flag_B)) (\<lambda>s.
       Inr (pc s + instr1 instr, cycles s + instr2 instr, s))"

definition instruction_PLA :: "cpu \<Rightarrow> int \<Rightarrow> instr \<Rightarrow> int \<Rightarrow> outcome" where
  "instruction_PLA s byte instr addr =
     (let s = flag_clear s Flag_Z;
          s = flag_clear s Flag_N
      in bnd (stack_pop s) (\<lambda>(v, s).
         bnd (as_int v) (\<lambda>a.
           let s = s\<lparr>acc := a\<rparr>;
               s = flag_set_if (acc s = 0) s Flag_Z;
               s = flag_set_if (acc s AND 0x80 \<noteq> 0) s Flag_N
           in Inr (pc s + instr1 instr, cycles s + instr2 instr, s))))"

definition instruction_PLP :: "cpu \<Rightarrow> int \<Rightarrow> instr \<Rightarrow> int \<Rightarrow> outcome" where
  "instruction_PLP s byte instr addr =
     bnd (stack_pop s) (\<lambda>(v, s).
     bnd (as_int v) (\<lambda>b.
       let s = s\<lparr>enabled_flags := set_byte (enabled_flags s) (b AND NOT Flag_B)\<rparr>
       in Inr (pc s + instr1 instr, cycles s + instr2 instr, s)))"

definition instruction_ROL :: "cpu \<Rightarrow> int \<Rightarrow> instr \<Rightarrow> int \<Rightarrow> outcome" where
  "instruction_ROL s byte instr addr =
     (let addr = index_addr s byte addr [0x36, 0x3E] 0x36 []
      in bnd (if byte = 0x2A then
                (let old_data = acc s;
                     s = s\<lparr>acc := (push_bit 1 (acc s) + of_bool (flag_isset s Flag_C)) mod 0x100\<rparr>
                 in Inr (old_data, Some (acc s), s))
              else
                bnd (bnd (mem_read s addr) as_int) (\<lambda>old_data.
                bnd (mem_write s addr
                       ((push_bit 1 old_data + of_bool (flag_isset s Flag_C)) mod 0x100)) (\<lambda>s.
                bnd (mem_read s addr) (\<lambda>new_data. Inr (old_data, new_data, s)))))
           (\<lambda>(old_data, new_data, s).
         let s = flag_clear s Flag_N;
             s = flag_clear s Flag_Z;
             s = flag_clear s Flag_C
         in bnd (shift_flags s (old_data AND 0x80 \<noteq> 0) new_data) (\<lambda>s.
              Inr (pc s + instr1 instr, cycles s + instr2 instr + page_penalty s instr addr, s))))"

definition instruction_ROR :: "cpu \<Rightarrow> int \<Rightarrow> instr \<Rightarrow> int \<Rightarrow> outcome" where
  "instruction_ROR s byte instr addr =
     (let addr = index_addr s byte addr [0x76, 0x7E] 0x76 []
      in bnd (if byte = 0x6A then
                (let old_data = acc s;
                     s = s\<lparr>acc := drop_bit 1 (acc s) + push_bit 7 (of_bool (flag_isset s Flag_C))\<rparr>
                 in Inr (old_data, Some (acc s), s))
              else
                bnd (bnd (mem_read s addr) as_int) (\<lambda>old_data.
                bnd (mem_write s addr
                       (drop_bit 1 old_data + push_bit 7 (of_bool (flag_isset s Flag_C)))) (\<lambda>s.
                bnd (mem_read s addr) (\<lambda>new_data. Inr (old_data, new_data, s)))))
           (\<lambda>(old_data, new_data, s).
         let s = flag_clear s Flag_N;
             s = flag_clear s Flag_Z;
             s = flag_clear s Flag_C
         in bnd (shift_flags s (old_data AND 0x01 \<noteq> 0) new_data) (\<lambda>s.
              Inr (pc s + instr1 instr, cycles s + instr2 instr + page_penalty s instr addr, s))))"

definition instruction_RTI :: "cpu \<Rightarrow> int \<Rightarrow> instr \<Rightarrow> int \<Rightarrow> outcome" where
  "instruction_RTI s byte instr addr =
     bnd (stack_pop s) (\<lambda>(v, s).
     bnd (as_int v) (\<lambda>f.
       let flags = f AND NOT Flag_B
       in bnd (stack_pop s) (\<lambda>(low, s).
          bnd (stack_pop s) (\<lambda>(high, s).
          bnd (as_int high) (\<lambda>h.
          bnd (as_int low) (\<lambda>l.
            let new_pc = l + push_bit 8 h;
                s = s\<lparr>enabled_flags := set_byte (enabled_flags s) flags\<rparr>
            in Inr (new_pc, cycles s + instr2 instr, s)))))))"

definition instruction_RTS :: "cpu \<Rightarrow> int \<Rightarrow> instr \<Rightarrow> int \<Rightarrow> outcome" where
  "instruction_RTS s byte instr addr =
     bnd (stack_pop s) (\<lambda>(lower, s).
     bnd (stack_pop s) (\<lambda>(higher, s).
     bnd (as_int higher) (\<lambda>h.
     bnd (as_int lower) (\<lambda>l.
       let new_pc = l + push_bit 8 h
       in Inr (new_pc + instr1 instr, cycles s + instr2 instr, s)))))"


definition sbc_core :: "cpu \<Rightarrow> int \<Rightarrow> cpu" where
  "sbc_core s data =
     (let old_acc = acc s;
          s = s\<lparr>acc := acc s + (NOT data + of_bool (flag_isset s Flag_C))\<rparr>;
          s = flag_clear s Flag_N;
          s = flag_clear s Flag_Z;
          s = flag_set s Flag_C;
          s = flag_clear s Flag_V;
          s = (if acc s < 0 then flag_clear s Flag_C else s);
          s = flag_set_if (acc s AND 128 \<noteq> 0) s Flag_N;
          s = s\<lparr>acc := acc s mod 0x100\<rparr>;
          s = flag_set_if (acc s = 0) s Flag_Z;
          s = flag_set_if (((old_acc XOR acc s) AND NOT (data XOR acc s)) AND 0x80 \<noteq> 0) s Flag_V
      in s)"

definition instruction_SBC :: "cpu \<Rightarrow> int \<Rightarrow> instr \<Rightarrow> int \<Rightarrow> outcome" where
  "instruction_SBC s byte instr addr =
     (let addr = index_addr s byte addr [0xF5, 0xFD, 0xE1] 0xF5 [0xF9]
      in bnd (deref_addr s byte addr 0xE1 0xF1) (\<lambda>addr.
         bnd (if byte \<noteq> 0xE9 then bnd (mem_read s (addr mod 0x10000)) as_int
              else Inr addr) (\<lambda>data.
           let s = sbc_core s data
           in Inr (pc s + instr1 instr, cycles s + instr2 instr + page_penalty s instr addr, s))))"

definition instruction_SEC :: "cpu \<Rightarrow> int \<Rightarrow> instr \<Rightarrow> int \<Rightarrow> outcome" where
  "instruction_SEC s byte instr addr =
     (let s = flag_set s Flag_C in Inr (pc s + instr1 instr, cycles s + instr2 instr, s))"

definition instruction_SED :: "cpu \<Rightarrow> int \<Rightarrow> instr \<Rightarrow> int \<Rightarrow> outcome" where
  "instruction_SED s byte instr addr =
     (let s = flag_set s Flag_D in Inr (pc s + instr1 instr, cycles s + instr2 instr, s))"

definition instruction_SEI :: "cpu \<Rightarrow> int \<Rightarrow> instr \<Rightarrow> int \<Rightarrow> outcome" where
  "instruction_SEI s byte instr addr =
     (let s = flag_set s Flag_I in Inr (pc s + instr1 instr, cycles s + instr2 instr, s))"

definition instruction_STA :: "cpu \<Rightarrow> int \<Rightarrow> instr \<Rightarrow> int \<Rightarrow> outcome" where
  "instruction_STA s byte instr addr =
     (let addr = index_addr s byte addr [0x95, 0x9D, 0x81] 0x95 [0x99]
      in bnd (deref_addr s byte addr 0x81 0x91) (\<lambda>addr.
           let addr = addr mod 0x10000
           in bnd (mem_write s addr (acc s)) (\<lambda>s.
                Inr (pc s + instr1 instr, cycles s + instr2 instr, s))))"

definition instruction_STX :: "cpu \<Rightarrow> int \<Rightarrow> instr \<Rightarrow> int \<Rightarrow> outcome" where
  "instruction_STX s byte instr addr =
     (let addr = index_by (y s) byte addr [0x96] 0x96;
          addr = addr mod 0x10000
      in bnd (mem_write s addr (x s)) (\<lambda>s.
           Inr (pc s + instr1 instr, cycles s + instr2 instr, s)))"

definition instruction_STY :: "cpu \<Rightarrow> int \<Rightarrow> instr \<Rightarrow> int \<Rightarrow> outcome" where
  "instruction_STY s byte instr addr =
     (let addr = index_by (x s) byte addr [0x94] 0x94;
          addr = addr mod 0x10000
      in bnd (mem_write s addr (y s)) (\<lambda>s.
           Inr (pc s + instr1 instr, cycles s + instr2 instr, s)))"

definition instruction_TAX :: "cpu \<Rightarrow> int \<Rightarrow> instr \<Rightarrow> int \<Rightarrow> outcome" where
  "instruction_TAX s byte instr addr =
     (let s = flag_clear s Flag_N;
          s = flag_clear s Flag_Z;
          s = s\<lparr>x := acc s\<rparr>;
          s = flag_set_if (x s = 0) s Flag_Z;
          s = flag_set_if (x s \<ge> 0x80) s Flag_N
      in Inr (pc s + instr1 instr, cycles s + instr2 instr, s))"

definition instruction_TAY :: "cpu \<Rightarrow> int \<Rightarrow> instr \<Rightarrow> int \<Rightarrow> outcome" where
  "instruction_TAY s byte instr addr =
     (let s = flag_clear s Flag_N;
          s = flag_clear s Flag_Z;
          s = s\<lparr>y := acc s\<rparr>;
          s = flag_set_if (y s = 0) s Flag_Z;
          s = flag_set_if (y s \<ge> 0x80) s Flag_N
      in Inr (pc s + instr1 instr, cycles s + instr2 instr, s))"

definition instruction_TSX :: "cpu \<Rightarrow> int \<Rightarrow> instr \<Rightarrow> int \<Rightarrow> outcome" where
  "instruction_TSX s byte instr addr =
     (let s = flag_clear s Flag_Z;
          s = flag_clear s Flag_N;
          s = s\<lparr>x := sp s\<rparr>;
          s = flag_set_if (x s = 0) s Flag_Z;
          s = flag_set_if (x s AND 0x80 \<noteq> 0) s Flag_N
      in Inr (pc s + instr1 instr, cycles s + instr2 instr, s))"

definition instruction_TXA :: "cpu \<Rightarrow> int \<Rightarrow> instr \<Rightarrow> int \<Rightarrow> outcome" where
  "instruction_TXA s byte instr addr =
     (let s = flag_clear s Flag_N;
          s = flag_clear s Flag_Z;
          s = s\<lparr>acc := x s\<rparr>;
          s = flag_set_if (acc s = 0) s Flag_Z;
          s = flag_set_if (acc s \<ge> 0x80) s Flag_N
      in Inr (pc s + instr1 instr, cycles s + instr2 instr, s))"

definition instruction_TXS :: "cpu \<Rightarrow> int \<Rightarrow> instr \<Rightarrow> int \<Rightarrow> outcome" where
  "instruction_TXS s byte instr addr =
     (let s = s\<lparr>sp := x s\<rparr>
      in Inr (pc s + instr1 instr, cycles s + instr2 instr, s))"

definition instruction_TYA :: "cpu \<Rightarrow> int \<Rightarrow> instr \<Rightarrow> int \<Rightarrow> outcome" where
  "instruction_TYA s byte instr addr =
     (let s = flag_clear s Flag_N;
          s = flag_clear s Flag_Z;
          s = s\<lparr>acc := y s\<rparr>;
          s = flag_set_if (y s = 0) s Flag_Z;
          s = flag_set_if (y s \<ge> 0x80) s Flag_N
      in Inr (pc s + instr1 instr, cycles s + instr2 instr, s))"

subsection \<open>Illegal opcodes\<close>

definition instruction_iDCP :: "cpu \<Rightarrow> int \<Rightarrow> instr \<Rightarrow> int \<Rightarrow> outcome" where
  "instruction_iDCP s byte instr addr =
     (let s = flag_clear s Flag_N;
          s = flag_clear s Flag_Z;
          s = flag_clear s Flag_C;
          addr = index_addr s byte addr [0xD7, 0xDF, 0xC3] 0xD7 [0xD8, 0xDB]
      in bnd (deref_addr s byte addr 0xC3 0xD3) (\<lambda>addr.
         bnd (bnd (mem_read s addr) as_int) (\<lambda>d.
           let data = (d - 1) mod 0x100
           in bnd (mem_write s addr data) (\<lambda>s.
                let s = flag_set_if (acc s \<ge> data) s Flag_C;
                    s = flag_set_if (acc s = data) s Flag_Z;
                    s = flag_set_if (((acc s - data) mod 0x100) AND 0x80 \<noteq> 0) s Flag_N
                in Inr (pc s + instr1 instr, cycles s + instr2 instr, s)))))"

definition instruction_iISC :: "cpu \<Rightarrow> int \<Rightarrow> instr \<Rightarrow> int \<Rightarrow> outcome" where
  "instruction_iISC s byte instr addr =
     (let addr = index_addr s byte addr [0xF7, 0xFF, 0xE3] 0xF7 [0xFB]
      in bnd (deref_addr s byte addr 0xE3 0xF3) (\<lambda>addr.
         bnd (bnd (mem_read s addr) as_int) (\<lambda>d.
           let data = (d + 1) mod 0x100
           in bnd (mem_write s addr data) (\<lambda>s.
                let s = sbc_core s data
                in Inr (pc s + instr1 instr, cycles s + instr2 instr, s)))))"

definition instruction_iLAX :: "cpu \<Rightarrow> int \<Rightarrow> instr \<Rightarrow> int \<Rightarrow> outcome" where
  "instruction_iLAX s byte instr addr =
     (let s = flag_clear s Flag_N;
          s = flag_clear s Flag_Z;
          addr = index_by (y s) byte addr [0xB7, 0xBF] 0xB7;
          addr = (if byte = 0xA3 then addr + x s else addr)
      in bnd (deref_addr s byte addr 0xA3 0xB3) (\<lambda>addr.
         bnd (bnd (mem_read s (addr mod 0x10000)) as_int) (\<lambda>data.
           let s = s\<lparr>x := data\<rparr>;
               s = s\<lparr>acc := data\<rparr>;
               s = flag_set_if (data = 0) s Flag_Z;
               s = flag_set_if (data \<ge> 0x80) s Flag_N
           in Inr (pc s + instr1 instr, cycles s + instr2 instr + page_penalty s instr addr, s))))"

definition instruction_iNOP :: "cpu \<Rightarrow> int \<Rightarrow> instr \<Rightarrow> int \<Rightarrow> outcome" where
  "instruction_iNOP s byte instr addr =
     Inr (pc s + instr1 instr, cycles s + instr2 instr + page_penalty s instr addr, s)"

definition instruction_iRLA :: "cpu \<Rightarrow> int \<Rightarrow> instr \<Rightarrow> int \<Rightarrow> outcome" where
  "instruction_iRLA s byte instr addr =
     (let addr = index_addr s byte addr [0x37, 0x3F, 0x23] 0x37 [0x3B]
      in bnd (deref_addr s byte addr 0x23 0x33) (\<lambda>addr.
         bnd (bnd (mem_read s addr) as_int) (\<lambda>old_data.
         bnd (mem_write s addr
                ((push_bit 1 old_data + of_bool (flag_isset s Flag_C)) mod 0x100)) (\<lambda>s.
         bnd (mem_read s addr) (\<lambda>new_data.
           let s = flag_clear s Flag_N;
               s = flag_clear s Flag_Z;
               s = flag_clear s Flag_C;
               s = flag_set_if (old_data AND 0x80 \<noteq> 0) s Flag_C
           in bnd (as_int new_data) (\<lambda>n.
                let s = s\<lparr>acc := acc s AND n\<rparr>;
                    s = flag_set_if (acc s = 0) s Flag_Z;
                    s = flag_set_if (acc s \<ge> 128) s Flag_N
                in Inr (pc s + instr1 instr, cycles s + instr2 instr, s)))))))"

definition instruction_iRRA :: "cpu \<Rightarrow> int \<Rightarrow> instr \<Rightarrow> int \<Rightarrow> outcome" where
  "instruction_iRRA s byte instr addr =
     (let addr = index_addr s byte addr [0x77, 0x7F, 0x63] 0x77 [0x7B]
      in bnd (deref_addr s byte addr 0x63 0x73) (\<lambda>addr.
         bnd (bnd (mem_read s addr) as_int) (\<lambda>old_data.
         bnd (mem_write s addr
                (drop_bit 1 old_data + push_bit 7 (of_bool (flag_isset s Flag_C)))) (\<lambda>s.
         bnd (mem_read s addr) (\<lambda>new_data.
         bnd (shift_flags s (old_data AND 0x01 \<noteq> 0) new_data) (\<lambda>s.
         bnd (as_int new_data) (\<lambda>n.
           let s = adc_core s n
           in Inr (pc s + instr1 instr, cycles s + instr2 instr, s))))))))"

definition instruction_iSAX :: "cpu \<Rightarrow> int \<Rightarrow> instr \<Rightarrow> int \<Rightarrow> outcome" where
  "instruction_iSAX s byte instr addr =
     (let addr = index_by (y s) byte addr [0x97] 0x97
      in bnd (if byte = 0x83 then bnd (read_pointer s (addr + x s)) (\<lambda>(a, lower). Inr a)
              else Inr addr) (\<lambda>addr.
           let data = acc s AND x s
           in bnd (mem_write s addr data) (\<lambda>s.
                Inr (pc s + instr1 instr, cycles s + instr2 instr, s))))"

definition instruction_iSBC :: "cpu \<Rightarrow> int \<Rightarrow> instr \<Rightarrow> int \<Rightarrow> outcome" where
  "instruction_iSBC s byte instr data =
     (let s = sbc_core s data
      in Inr (pc s + instr1 instr, cycles s + instr2 instr, s))"

definition instruction_iSLO :: "cpu \<Rightarrow> int \<Rightarrow> instr \<Rightarrow> int \<Rightarrow> outcome" where
  "instruction_iSLO s byte instr addr =
     (let s = flag_clear s Flag_N;
          s = flag_clear s Flag_Z;
          s = flag_clear s Flag_C;
          addr = index_addr s byte addr [0x17, 0x1F, 0x03] 0x17 [0x1B]
      in bnd (deref_addr s byte addr 0x03 0x13) (\<lambda>addr.
         bnd (bnd (mem_read s addr) as_int) (\<lambda>data.
           let s = flag_set_if (data AND 0x80 \<noteq> 0) s Flag_C;
               data = push_bit 1 data mod 0x100
           in bnd (mem_write s addr data) (\<lambda>s.
                let s = s\<lparr>acc := acc s OR data\<rparr>;
                    s = flag_set_if (acc s = 0) s Flag_Z;
                    s = flag_set_if (acc s \<ge> 128) s Flag_N
                in Inr (pc s + instr1 instr, cycles s + instr2 instr, s)))))"

definition instruction_iSRE :: "cpu \<Rightarrow> int \<Rightarrow> instr \<Rightarrow> int \<Rightarrow> outcome" where
  "instruction_iSRE s byte instr addr =
     (let s = flag_clear s Flag_N;
          s = flag_clear s Flag_Z;
          s = flag_clear s Flag_C;
          addr = index_addr s byte addr [0x57, 0x5F, 0x43] 0x57 [0x5B]
      in bnd (deref_addr s byte addr 0x43 0x53) (\<lambda>addr.
         bnd (bnd (mem_read s addr) as_int) (\<lambda>old_data.
         bnd (mem_write s addr (drop_bit 1 old_data)) (\<lambda>s.
         bnd (mem_read s addr) (\<lambda>new_data.
           let s = flag_set_if (old_data AND 0x01 \<noteq> 0) s Flag_C
           in bnd (as_int new_data) (\<lambda>n.
                let s = s\<lparr>acc := acc s XOR n\<rparr>;
                    s = flag_set_if (acc s = 0) s Flag_Z;
                    s = flag_set_if (acc s \<ge> 0x80) s Flag_N
                in Inr (pc s + instr1 instr, cycles s + instr2 instr, s)))))))"

section \<open>cpu.py: fetch, dispatch and the PPU\<close>

definition get_current_pc_byte :: "cpu \<Rightarrow> error + int option" where
  "get_current_pc_byte s = mem_read s (pc s)"

text \<open>
  \<open>get_instruction_at\<close> ignores its argument and looks at the byte at PC. For a byte that
  is not in the table it builds its message through \<open>_format_instr\<close>, which calls
  \<open>get_instruction_at\<close> again: the recursion ends in Python's \<open>RecursionError\<close>.
\<close>

definition get_instruction_at :: "cpu \<Rightarrow> int \<Rightarrow> error + instr" where
  "get_instruction_at s loc =
     bnd (get_current_pc_byte s) (\<lambda>cur_byte.
       case cur_byte of
         None \<Rightarrow> Inl RecursionError
       | Some b \<Rightarrow> (case opcodes b of None \<Rightarrow> Inl RecursionError | Some i \<Rightarrow> Inr i))"

definition get_current_instruction :: "cpu \<Rightarrow> error + instr" where
  "get_current_instruction s = get_instruction_at s (pc s)"

definition instruction_not_implemented :: "cpu \<Rightarrow> int \<Rightarrow> instr \<Rightarrow> int \<Rightarrow> outcome" where
  "instruction_not_implemented s byte instr addr =
     bnd (get_instruction_at s byte) (\<lambda>i. Inl NotImplemented)"

text \<open>
  \<open>handler\<close> is \<open>getattr(self, "instruction_" + instr[0], self.instruction_not_implemented)\<close>:
  the class has a method for 66 of the table's 72 mnemonics.
\<close>

definition handler :: "mnemonic \<Rightarrow> cpu \<Rightarrow> int \<Rightarrow> instr \<Rightarrow> int \<Rightarrow> outcome" where
  "handler name =
     (if name = ''ADC'' then instruction_ADC
      else if name = ''AND'' then instruction_AND
      else if name = ''ASL'' then instruction_ASL
      else if name = ''BCC'' then instruction_BCC
      else if name = ''BCS'' then instruction_BCS
      else if name = ''BEQ'' then instruction_BEQ
      else if name = ''BIT'' then instruction_BIT
      else if name = ''BMI'' then instruction_BMI
      else if name = ''BNE'' then instruction_BNE
      else if name = ''BPL'' then instruction_BPL
      else if name = ''BRK'' then instruction_BRK
      else if name = ''BVC'' then instruction_BVC
      else if name = ''BVS'' then instruction_BVS
      else if name = ''CLC'' then instruction_CLC
      else if name = ''CLD'' then instruction_CLD
      else if name = ''CLI'' then instruction_CLI
      else if name = ''CLV'' then instruction_CLV
      else if name = ''CMP'' then instruction_CMP
      else if name = ''CPX'' then instruction_CPX
      else if name = ''CPY'' then instruction_CPY
      else if name = ''DEC'' then instruction_DEC
      else if name = ''DEX'' then instruction_DEX
      else if name = ''DEY'' then instruction_DEY
      else if name = ''EOR'' then instruction_EOR
      else if name = ''INC'' then instruction_INC
      else if name = ''INX'' then instruction_INX
      else if name = ''INY'' then instruction_INY
      else if name = ''JMP'' then instruction_JMP
      else if name = ''JSR'' then instruction_JSR
      else if name = ''LDA'' then instruction_LDA
      else if name = ''LDX'' then instruction_LDX
      else if name = ''LDY'' then instruction_LDY
      else if name = ''LSR'' then instruction_LSR
      else if name = ''NOP'' then instruction_NOP
      else if name = ''ORA'' then instruction_ORA
      else if name = ''PHA'' then instruction_PHA
      else if name = ''PHP'' then instruction_PHP
      else if name = ''PLA'' then instruction_PLA
      else if name = ''PLP'' then instruction_PLP
      else if name = ''ROL'' then instruction_ROL
      else if name = ''ROR'' then instruction_ROR
      else if name = ''RTI'' then instruction_RTI
      else if name = ''RTS'' then instruction_RTS
      else if name = ''SBC'' then instruction_SBC
      else if name = ''SEC'' then instruction_SEC
      else if name = ''SED'' then instruction_SED
      else if name = ''SEI'' then instruction_SEI
      else if name = ''STA'' then instruction_STA
      else if name = ''STX'' then instruction_STX
      else if name = ''STY'' then instruction_STY
      else if name = ''TAX'' then instruction_TAX
      else if name = ''TAY'' then instruction_TAY
      else if name = ''TSX'' then instruction_TSX
      else if name = ''TXA'' then instruction_TXA
      else if name = ''TXS'' then instruction_TXS
      else if name = ''TYA'' then instruction_TYA
      else if name = ''iDCP'' then instruction_iDCP
      else if name = ''iISC'' then instruction_iISC
      else if name = ''iLAX'' then instruction_iLAX
      else if name = ''iNOP'' then instruction_iNOP
      else if name = ''iRLA'' then instruction_iRLA
      else if name = ''iRRA'' then instruction_iRRA
      else if name = ''iSAX'' then instruction_iSAX
      else if name = ''iSBC'' then instruction_iSBC
      else if name = ''iSLO'' then instruction_iSLO
      else if name = ''iSRE'' then instruction_iSRE
      else instruction_not_implemented)"

definition handle_irq :: "cpu \<Rightarrow> error + cpu" where
  "handle_irq s =
     bnd (stack_push s (drop_bit 8 (pc s))) (\<lambda>s.
     bnd (stack_push s (pc s AND 0xFF)) (\<lambda>s.
     bnd (stack_push s (get_byte (enabled_flags s))) (\<lambda>s.
     bnd (irq_vector s) (\<lambda>v. Inr (s\<lparr>pc := v, cycles := cycles s + 7\<rparr>)))))"

definition handle_nmi :: "cpu \<Rightarrow> error + cpu" where
  "handle_nmi s =
     bnd (stack_push s (drop_bit 8 (pc s))) (\<lambda>s.
     bnd (stack_push s (pc s AND 0xFF)) (\<lambda>s.
     bnd (stack_push s (get_byte (enabled_flags s))) (\<lambda>s.
     bnd (nmi_vector s) (\<lambda>v. Inl NMIRaised))))"

definition ppu_run :: "cpu \<Rightarrow> error + cpu" where
  "ppu_run s =
     (let p = ppu s
      in bnd (if ppu_cycles p mod CYCLES_PER_FRAME > CYCLE_POSTRENDER then
                (let s = s\<lparr>ppu := p\<lparr>ppu_status := ppu_status p OR 0x80\<rparr>\<rparr>
                 in if ppu_cycles p mod CYCLES_PER_FRAME = CYCLE_VBLANK
                       \<and> ppu_control p AND 0x80 \<noteq> 0
                    then handle_nmi s else Inr s)
              else Inr (s\<lparr>ppu := p\<lparr>ppu_status := ppu_status p AND NOT 0x80\<rparr>\<rparr>)) (\<lambda>s.
         Inr (s\<lparr>ppu := (ppu s)\<lparr>ppu_cycles := ppu_cycles (ppu s) + 1\<rparr>\<rparr>)))"

fun ppu_catch_up :: "nat \<Rightarrow> cpu \<Rightarrow> error + cpu" where
  "ppu_catch_up 0 s = Inr s"
| "ppu_catch_up (Suc n) s = bnd (ppu_run s) (ppu_catch_up n)"

fun read_bytes :: "cpu \<Rightarrow> int \<Rightarrow> nat \<Rightarrow> error + int option list" where
  "read_bytes s a 0 = Inr []"
| "read_bytes s a (Suc n) =
     bnd (mem_read s a) (\<lambda>v. bnd (read_bytes s (a + 1) n) (\<lambda>vs. Inr (v # vs)))"

fun from_bytes_little :: "int option list \<Rightarrow> error + int" where
  "from_bytes_little [] = Inr 0"
| "from_bytes_little (v # vs) =
     (case v of
        None \<Rightarrow> Inl TypeError
      | Some b \<Rightarrow>
          if b < 0 \<or> b > 255 then Inl ValueError
          else bnd (from_bytes_little vs) (\<lambda>r. Inr (b + 256 * r)))"

text \<open>
  \<open>CPU.run\<close> in two parts. \<open>fetch\<close> is everything up to the call of the handler: the
  instruction at PC, its operand bytes, the \<open>print\<close> (which formats the byte at PC once
  more, so it is read and must be an integer), the stop on BRK, and the byte passed to
  the handler. These statements read the bus and assign to no attribute, so \<open>fetch\<close>
  returns no state. \<open>run\<close> then calls the handler, assigns PC and cycles, and runs the PPU
  loop \<open>for _ in range(self.cycles - cur_cycles): self.ppu.run(self)\<close>.

  An exception that leaves \<open>run\<close> comes with the CPU it leaves behind, where the model
  knows it: an exception of \<open>fetch\<close> leaves the CPU exactly as \<open>run\<close> found it. An
  exception out of a handler or out of the PPU loop leaves a CPU that may be half
  updated, which the model does not describe (\<open>None\<close>).
\<close>

type_synonym raised = "error \<times> cpu option"

definition fetch :: "cpu \<Rightarrow> error + (instr \<times> int \<times> int)" where
  "fetch s =
     bnd (get_current_instruction s) (\<lambda>instr.
     bnd (read_bytes s (pc s + 1) (nat (instr1 instr - 1))) (\<lambda>instr_bytes.
     bnd (from_bytes_little instr_bytes) (\<lambda>data.
     bnd (bnd (get_current_pc_byte s) as_int) (\<lambda>printed.
     if instr0 instr = ''BRK'' then Inl Die
     else
       bnd (bnd (get_current_pc_byte s) as_int) (\<lambda>byte. Inr (instr, data, byte))))))"

definition run :: "cpu \<Rightarrow> raised + cpu" where
  "run s =
     (let cur_cycles = cycles s
      in case fetch s of
           Inl e \<Rightarrow> Inl (e, Some s)
         | Inr (instr, data, byte) \<Rightarrow>
             (case handler (instr0 instr) s byte instr data of
                Inl e \<Rightarrow> Inl (e, None)
              | Inr (new_pc, new_cycles, s) \<Rightarrow>
                  (let s = s\<lparr>pc := new_pc, cycles := new_cycles\<rparr>
                   in case ppu_catch_up (nat (cycles s - cur_cycles)) s of
                        Inl e \<Rightarrow> Inl (e, None)
                      | Inr s \<Rightarrow> Inr s)))"

text \<open>
  \<open>run_n\<close> is the loop of main.py, \<open>while True: cpu.run()\<close>, cut after n steps; \<open>boot\<close> is
  the construction of the CPU followed by n steps.
\<close>

fun run_n :: "nat \<Rightarrow> cpu \<Rightarrow> raised + cpu" where
  "run_n 0 s = Inr s"
| "run_n (Suc n) s = bnd (run s) (run_n n)"


section \<open>Well-formed flags\<close>

text \<open>
  \<open>Flag.set\<close> appends a flag only when it is absent and every flag comes from \<open>VALUES\<close>, so
  the list never holds a flag twice nor anything but the eight flag values.
\<close>

definition flags_ok :: "int list \<Rightarrow> bool" where
  "flags_ok fl = (distinct fl \<and> set fl \<subseteq> set VALUES)"

section \<open>Register ranges\<close>

text \<open>
  No handler masks a register it writes. What the arithmetic of the handlers does keep
  is stated with these predicates: a register value lies in [-256, 255], a memory cell
  and the PPU status hold a byte. \<open>operand_ok\<close> says that the operand fetched for an
  immediate AND, EOR, LDA, LDX, LDY or ORA is one byte.
\<close>

definition reg_ok :: "int \<Rightarrow> bool" where
  "reg_ok v = (- 256 \<le> v \<and> v \<le> 255)"

definition byte_ok :: "int \<Rightarrow> bool" where
  "byte_ok v = (0 \<le> v \<and> v \<le> 255)"

definition bus_ok :: "cpu \<Rightarrow> bool" where
  "bus_ok s = ((\<forall>a. byte_ok (mem s a)) \<and> byte_ok (ppu_status (ppu s)))"

definition regs_ok :: "cpu \<Rightarrow> bool" where
  "regs_ok s = (reg_ok (acc s) \<and> reg_ok (x s) \<and> reg_ok (y s) \<and> reg_ok (sp s) \<and> bus_ok s)"



section \<open>Example states\<close>

definition blank_memory :: "int \<Rightarrow> int" where
  "blank_memory = (\<lambda>a. 0)"

definition power_on :: cpu where
  "power_on = \<lparr>sp = 0xFD, pc = 0x8000, acc = 0, x = 0, y = 0, cycles = 0,
     enabled_flags = INIT_FLAGS, mem = blank_memory, is_mirror = False, ppu = PPU_init\<rparr>"

text \<open>
  \<open>nop_state\<close> has a NOP at PC. \<open>beq_state\<close> has a BEQ with the given offset at the given
  address, and Z set. \<open>lda_absx_state\<close> has LDA $8010,X at the given address (X is 0).
  \<open>cli_state\<close> has I clear and PHP, PLP at PC. \<open>carry_state\<close> has N and C set and I clear.
  \<open>overflow_image\<close> is a cartridge image whose reset vector is 0x8000, where the program
  TXS, PHA, TSX, TXA, TAY, JMP $FFFF stands, with a NOP at 0xFFFF. \<open>cli_image\<close> is an
  image whose reset vector is 0x8000, where a CLI stands.
\<close>

definition nop_state :: cpu where
  "nop_state = power_on\<lparr>mem := blank_memory(0x8000 := 0xEA)\<rparr>"

definition beq_state :: "int \<Rightarrow> int \<Rightarrow> cpu" where
  "beq_state at offset =
     power_on\<lparr>pc := at, enabled_flags := [Flag_unused, Flag_I, Flag_Z],
              mem := blank_memory(at := 0xF0, at + 1 := offset)\<rparr>"

definition lda_absx_state :: "int \<Rightarrow> cpu" where
  "lda_absx_state at =
     power_on\<lparr>pc := at, mem := blank_memory(at := 0xBD, at + 1 := 0x10, at + 2 := 0x80)\<rparr>"

definition cli_state :: cpu where
  "cli_state = power_on\<lparr>enabled_flags := [Flag_unused],
                        mem := blank_memory(0x8000 := 0x08, 0x8001 := 0x28)\<rparr>"



definition carry_state :: cpu where
  "carry_state = power_on\<lparr>enabled_flags := [Flag_unused, Flag_C, Flag_N]\<rparr>"

section \<open>Properties\<close>

lemma bnd_simps [simp]: "bnd (Inl e) f = Inl e" "bnd (Inr v) f = f v"
  by (simp_all add: bnd_def)

subsection \<open>The bus\<close>

text \<open>
  Claim C8. A write to any address at or above 0x8000, with any data, returns without
  touching the state: the memory array is unchanged, and a read at the same address
  afterwards gives what it gave before.
\<close>

theorem rom_write_suppressed:
  "a \<ge> 0x8000 \<Longrightarrow>
     mem_write s a d = Inr s
     \<and> (\<forall>s'. mem_write s a d = Inr s' \<longrightarrow> mem s' = mem s \<and> mem_read s' a = mem_read s a)"
  by (simp add: mem_write_def)

theorem rom_write_suppressed_witness:
  "mem_write power_on 0x8000 0xAB = Inr power_on \<and> mem power_on 0x8000 = 0
   \<and> mem_read power_on 0x8000 = Inr (Some 0)"
  using rom_write_suppressed [of "0x8000" power_on "0xAB"]
  by (simp add: mem_read_def map_byte_def REGISTERS_def bytearray_get_def power_on_def
      blank_memory_def)

text \<open>
  Claim C7 asks that a read of a mirror of PPUSTATUS return the status byte. The code
  maps 0x200A to 0x2002 to decide that the PPU answers, but hands the PPU the unmapped
  address, and \<open>handle_read\<close> knows 0x2002 only: the read of 0x200A returns \<open>None\<close>, the read
  of 0x2002 the status byte.
\<close>

theorem ppustatus_mirror_read:
  "map_byte (is_mirror s) 0x200A = 0x2002
   \<and> mem_read s 0x2002 = Inr (Some (ppu_status (ppu s)))
   \<and> mem_read s 0x200A = Inr None"
  by (simp add: mem_read_def map_byte_def REGISTERS_def handle_read_def)

subsection \<open>Reset\<close>



subsection \<open>The status flags\<close>

lemmas flag_consts = Flag_N_def Flag_V_def Flag_unused_def Flag_B_def Flag_D_def Flag_I_def
  Flag_Z_def Flag_C_def

lemma and_pow2_cases: "(b::int) AND 2 ^ n = 0 \<or> b AND 2 ^ n = 2 ^ n"
proof (cases "bit b n")
  case True
  have "b AND 2 ^ n = 2 ^ n"
    by (rule bit_eqI) (use True in \<open>auto simp: bit_and_iff bit_exp_iff\<close>)
  then show ?thesis ..
next
  case False
  then show ?thesis by (simp add: and_exp_eq_0_iff_not_bit)
qed

lemma and_masks:
  "(b::int) AND 128 = 0 \<or> b AND 128 = 128" "(b::int) AND 64 = 0 \<or> b AND 64 = 64"
  "(b::int) AND 32 = 0 \<or> b AND 32 = 32" "(b::int) AND 16 = 0 \<or> b AND 16 = 16"
  "(b::int) AND 8 = 0 \<or> b AND 8 = 8" "(b::int) AND 4 = 0 \<or> b AND 4 = 4"
  "(b::int) AND 2 = 0 \<or> b AND 2 = 2" "(b::int) AND 1 = 0 \<or> b AND 1 = 1"
  using and_pow2_cases[of b 7] and_pow2_cases[of b 6] and_pow2_cases[of b 5]
    and_pow2_cases[of b 4] and_pow2_cases[of b 3] and_pow2_cases[of b 2]
    and_pow2_cases[of b 1] and_pow2_cases[of b 0]
  by simp_all

lemma and_mask_nz:
  "(b::int) AND 128 \<noteq> 0 \<Longrightarrow> b AND 128 = 128"
  "(b::int) AND 64 \<noteq> 0 \<Longrightarrow> b AND 64 = 64"
  "(b::int) AND 32 \<noteq> 0 \<Longrightarrow> b AND 32 = 32"
  "(b::int) AND 16 \<noteq> 0 \<Longrightarrow> b AND 16 = 16"
  "(b::int) AND 8 \<noteq> 0 \<Longrightarrow> b AND 8 = 8"
  "(b::int) AND 4 \<noteq> 0 \<Longrightarrow> b AND 4 = 4"
  "(b::int) AND 2 \<noteq> 0 \<Longrightarrow> b AND 2 = 2"
  "(b::int) AND 1 \<noteq> 0 \<Longrightarrow> b AND 1 = 1"
  using and_masks[of b] by blast+

lemma sum_mask:
  "sum_list (if (b::int) AND 128 \<noteq> 0 then [128] else []) = b AND 128"
  "sum_list (if (b::int) AND 64 \<noteq> 0 then [64] else []) = b AND 64"
  "sum_list (if (b::int) AND 16 \<noteq> 0 then [16] else []) = b AND 16"
  "sum_list (if (b::int) AND 8 \<noteq> 0 then [8] else []) = b AND 8"
  "sum_list (if (b::int) AND 2 \<noteq> 0 then [2] else []) = b AND 2"
  "sum_list (if (b::int) AND 1 \<noteq> 0 then [1] else []) = b AND 1"
  by (auto dest: and_mask_nz)

lemma set_byte_list:
  "set_byte fl b = [32, 4] @ (if b AND 128 \<noteq> 0 then [128] else []) @ (if b AND 64 \<noteq> 0 then [64] else [])
     @ (if b AND 16 \<noteq> 0 then [16] else []) @ (if b AND 8 \<noteq> 0 then [8] else [])
     @ (if b AND 2 \<noteq> 0 then [2] else []) @ (if b AND 1 \<noteq> 0 then [1] else [])"
  by (simp add: set_byte_def set_if_def set_flag_def isset_def INIT_FLAGS_def flag_consts Let_def)

lemma set_byte_sum:
  "get_byte (set_byte fl b) = 36 + (b AND 128) + (b AND 64) + (b AND 16) + (b AND 8) + (b AND 2) + (b AND 1)"
  by (simp add: set_byte_list get_byte_def sum_mask)

lemma status_bits_of_sum:
  assumes "m7 = 0 \<or> m7 = (128::int)" "m6 = 0 \<or> m6 = (64::int)" "m4 = 0 \<or> m4 = (16::int)"
    "m3 = 0 \<or> m3 = (8::int)" "m1 = 0 \<or> m1 = (2::int)" "m0 = 0 \<or> m0 = (1::int)"
  shows "(36 + m7 + m6 + m4 + m3 + m1 + m0) AND 4 = 4"
    and "(36 + m7 + m6 + m4 + m3 + m1 + m0) AND 32 = 32"
  using assms by (elim disjE; simp)+

lemma set_byte_sets_I_reserved:
  "isset (set_byte fl b) Flag_I" "isset (set_byte fl b) Flag_unused"
  "get_byte (set_byte fl b) AND Flag_I = Flag_I"
  "get_byte (set_byte fl b) AND Flag_unused = Flag_unused"
proof -
  show "isset (set_byte fl b) Flag_I" "isset (set_byte fl b) Flag_unused"
    by (simp_all add: set_byte_list isset_def flag_consts)
  show "get_byte (set_byte fl b) AND Flag_I = Flag_I"
    "get_byte (set_byte fl b) AND Flag_unused = Flag_unused"
    unfolding set_byte_sum flag_consts
    using status_bits_of_sum[OF and_masks(1)[of b] and_masks(2)[of b] and_masks(4)[of b]
        and_masks(5)[of b] and_masks(7)[of b] and_masks(8)[of b]]
    by simp_all
qed

lemma stack_push_ok:
  "0 \<le> sp s \<Longrightarrow> sp s \<le> 255 \<Longrightarrow>
   stack_push s v = Inr (s\<lparr>mem := (mem s)(0x100 + sp s := v mod 0x100), sp := sp s - 1\<rparr>)"
  by (simp add: stack_push_def mem_write_def map_byte_def REGISTERS_def bytearray_set_def)

lemma stack_pop_ok:
  "- 1 \<le> sp s \<Longrightarrow> sp s < 255 \<Longrightarrow>
   stack_pop s = Inr (Some (mem s (0x101 + sp s)), s\<lparr>sp := sp s + 1\<rparr>)"
  by (simp add: stack_pop_def mem_read_def map_byte_def REGISTERS_def bytearray_get_def Let_def)

lemma get_byte_ok:
  assumes "flags_ok fl"
  shows "get_byte fl = (if 128 \<in> set fl then 128 else 0) + (if 64 \<in> set fl then 64 else 0)
      + (if 32 \<in> set fl then 32 else 0) + (if 16 \<in> set fl then 16 else 0)
      + (if 8 \<in> set fl then 8 else 0) + (if 4 \<in> set fl then 4 else 0)
      + (if 2 \<in> set fl then 2 else 0) + (if 1 \<in> set fl then 1 else 0)"
proof -
  let ?A = "{128, 64, 32, 16, 8, 4, 2, 1 :: int}"
  from assms have d: "distinct fl" and sub: "set fl \<subseteq> ?A"
    by (auto simp: flags_ok_def VALUES_def flag_consts)
  have "get_byte fl = sum_list (map (\<lambda>v. v) fl)" by (simp add: get_byte_def)
  also have "\<dots> = sum (\<lambda>v. v) (set fl)" using d by (rule sum_list_distinct_conv_sum_set)
  also have "set fl = {v \<in> ?A. v \<in> set fl}" using sub by auto
  also have "sum (\<lambda>v. v) {v \<in> ?A. v \<in> set fl} = sum (\<lambda>v. if v \<in> set fl then v else 0) ?A"
    by (rule sum.inter_filter) simp
  also have "\<dots> = (if 128 \<in> set fl then 128 else 0) + (if 64 \<in> set fl then 64 else 0)
      + (if 32 \<in> set fl then 32 else 0) + (if 16 \<in> set fl then 16 else 0)
      + (if 8 \<in> set fl then 8 else 0) + (if 4 \<in> set fl then 4 else 0)
      + (if 2 \<in> set fl then 2 else 0) + (if 1 \<in> set fl then 1 else 0)"
    by simp
  finally show ?thesis .
qed

lemma pulled_bits:
  assumes "P = (if c7 then 128 else 0) + (if c6 then 64 else 0) + (if c5 then 32 else 0)
      + (if c4 then 16 else 0) + (if c3 then 8 else 0) + (if c2 then 4 else 0)
      + (if c1 then 2 else 0) + (if c0 then (1::int) else 0)"
  shows "(((P OR 16) mod 0x100) AND NOT 16) AND 128 = (if c7 then 128 else 0)"
    "(((P OR 16) mod 0x100) AND NOT 16) AND 64 = (if c6 then 64 else 0)"
    "(((P OR 16) mod 0x100) AND NOT 16) AND 16 = 0"
    "(((P OR 16) mod 0x100) AND NOT 16) AND 8 = (if c3 then 8 else 0)"
    "(((P OR 16) mod 0x100) AND NOT 16) AND 2 = (if c1 then 2 else 0)"
    "(((P OR 16) mod 0x100) AND NOT 16) AND 1 = (if c0 then 1 else 0)"
    "36 + (if c7 then 128 else 0) + (if c6 then 64 else 0) + (if c3 then 8 else 0)
       + (if c1 then 2 else 0) + (if c0 then 1 else 0) = ((P AND NOT 16) OR 4) OR 32"
  unfolding assms
  by (cases c7; cases c6; cases c5; cases c4; cases c3; cases c2; cases c1; cases c0; simp)+

lemma php_plp_flags:
  assumes ok: "flags_ok fl"
  defines "bb \<equiv> ((get_byte fl OR Flag_B) mod 0x100) AND NOT Flag_B"
  shows "get_byte (set_byte fl0 bb) = ((get_byte fl AND NOT Flag_B) OR Flag_I) OR Flag_unused"
    and "isset (set_byte fl0 bb) Flag_N = isset fl Flag_N"
    and "isset (set_byte fl0 bb) Flag_V = isset fl Flag_V"
    and "isset (set_byte fl0 bb) Flag_D = isset fl Flag_D"
    and "isset (set_byte fl0 bb) Flag_Z = isset fl Flag_Z"
    and "isset (set_byte fl0 bb) Flag_C = isset fl Flag_C"
    and "\<not> isset (set_byte fl0 bb) Flag_B"
proof -
  note pb = pulled_bits[OF get_byte_ok[OF ok]]
  have b: "bb = ((get_byte fl OR 16) mod 0x100) AND NOT 16"
    by (simp add: bb_def flag_consts)
  show "get_byte (set_byte fl0 bb) = ((get_byte fl AND NOT Flag_B) OR Flag_I) OR Flag_unused"
    unfolding set_byte_sum b flag_consts pb(1-6) using pb(7) by simp
  show "isset (set_byte fl0 bb) Flag_N = isset fl Flag_N"
    "isset (set_byte fl0 bb) Flag_V = isset fl Flag_V"
    "isset (set_byte fl0 bb) Flag_D = isset fl Flag_D"
    "isset (set_byte fl0 bb) Flag_Z = isset fl Flag_Z"
    "isset (set_byte fl0 bb) Flag_C = isset fl Flag_C"
    "\<not> isset (set_byte fl0 bb) Flag_B"
    unfolding set_byte_list b flag_consts pb(1-6) isset_def by simp_all
qed

lemma PLP_flags:
  "instruction_PLP s byte instr addr = Inr (new_pc, new_cycles, s') \<Longrightarrow>
     \<exists>b. enabled_flags s' = set_byte (enabled_flags s) b"
  by (auto simp: instruction_PLP_def stack_pop_def bnd_def as_int_def Let_def
      split: if_splits sum.splits option.splits prod.splits)

lemma RTI_flags:
  "instruction_RTI s byte instr addr = Inr (new_pc, new_cycles, s') \<Longrightarrow>
     \<exists>b. enabled_flags s' = set_byte (enabled_flags s) b"
  by (auto simp: instruction_RTI_def stack_pop_def bnd_def as_int_def Let_def
      split: if_splits sum.splits option.splits prod.splits)

text \<open>
  Claim C10. \<open>set_byte\<close> starts from \<open>INIT_FLAGS\<close>, so whatever byte it is given, the I flag
  and the reserved flag are in the list afterwards and read as set in \<open>get_byte\<close>; PLP and
  RTI load the flags through \<open>set_byte\<close>, so neither can leave I clear.
\<close>

theorem set_byte_forces_I_and_reserved:
  "isset (set_byte fl b) Flag_I \<and> isset (set_byte fl b) Flag_unused
   \<and> get_byte (set_byte fl b) AND Flag_I = Flag_I
   \<and> get_byte (set_byte fl b) AND Flag_unused = Flag_unused
   \<and> (\<forall>new_pc new_cycles s'.
         instruction_PLP s byte instr addr = Inr (new_pc, new_cycles, s') \<longrightarrow>
           isset (enabled_flags s') Flag_I \<and> isset (enabled_flags s') Flag_unused
           \<and> get_byte (enabled_flags s') AND Flag_I = Flag_I
           \<and> get_byte (enabled_flags s') AND Flag_unused = Flag_unused)
   \<and> (\<forall>new_pc new_cycles s'.
         instruction_RTI s byte instr addr = Inr (new_pc, new_cycles, s') \<longrightarrow>
           isset (enabled_flags s') Flag_I \<and> isset (enabled_flags s') Flag_unused
           \<and> get_byte (enabled_flags s') AND Flag_I = Flag_I
           \<and> get_byte (enabled_flags s') AND Flag_unused = Flag_unused)"
  using set_byte_sets_I_reserved by (metis PLP_flags RTI_flags)

theorem set_byte_forces_I_and_reserved_witness:
  "isset (set_byte [] 0) Flag_I \<and> get_byte (set_byte [] 0) AND Flag_I = Flag_I
   \<and> (\<exists>new_pc new_cycles s'.
         instruction_PLP (power_on\<lparr>sp := 0xF0\<rparr>) 0x28 (''PLP'', 1, 4, 0) 0
           = Inr (new_pc, new_cycles, s')
         \<and> isset (enabled_flags s') Flag_I \<and> get_byte (enabled_flags s') AND Flag_I = Flag_I)
   \<and> (\<exists>new_pc new_cycles s'.
         instruction_RTI (power_on\<lparr>sp := 0xF0\<rparr>) 0x40 (''RTI'', 1, 6, 0) 0
           = Inr (new_pc, new_cycles, s')
         \<and> isset (enabled_flags s') Flag_I \<and> get_byte (enabled_flags s') AND Flag_I = Flag_I)"
proof -
  let ?s = "power_on\<lparr>sp := 0xF0\<rparr>"
  have sp1: "- 1 \<le> sp ?s" "sp ?s < 255" by (simp_all add: power_on_def)
  have p: "\<exists>new_pc new_cycles s'.
      instruction_PLP ?s 0x28 (''PLP'', 1, 4, 0) 0 = Inr (new_pc, new_cycles, s')"
    by (simp add: instruction_PLP_def stack_pop_ok power_on_def as_int_def)
  have r: "\<exists>new_pc new_cycles s'.
      instruction_RTI ?s 0x40 (''RTI'', 1, 6, 0) 0 = Inr (new_pc, new_cycles, s')"
    by (simp add: instruction_RTI_def stack_pop_ok power_on_def as_int_def)
  from set_byte_forces_I_and_reserved [of "[]" 0 ?s "0x28" "(''PLP'', 1, 4, 0)" 0] p
    set_byte_forces_I_and_reserved [of "[]" 0 ?s "0x40" "(''RTI'', 1, 6, 0)" 0] r
  show ?thesis by blast
qed

text \<open>
  Claim C3 asks that PHP followed by PLP restore every flag, I included, set or clear.
  With I clear before PHP (P = 0x20), P is 0x24 after PLP: I has been set.
\<close>

theorem php_plp_counterexample:
  "get_byte (enabled_flags cli_state) = 0x20 \<and> \<not> isset (enabled_flags cli_state) Flag_I
   \<and> (case run_n 2 cli_state of Inl e \<Rightarrow> False
      | Inr s' \<Rightarrow> get_byte (enabled_flags s') = 0x24 \<and> isset (enabled_flags s') Flag_I
                 \<and> sp s' = sp cli_state)"
  by code_simp

text \<open>
  Claim C3 as the code has it. With room on the stack (SP between 0 and 255) and a
  well-formed flag list, PHP followed by PLP succeeds and leaves SP as it was; N, V, D, Z
  and C are as before PHP, while I and the reserved flag are set and B is clear whatever
  they were: P is its old value with B cleared and I and the reserved bit set.
\<close>

theorem php_plp_roundtrip:
  assumes "flags_ok (enabled_flags s)" and "0 \<le> sp s" and "sp s \<le> 255"
  shows "\<exists>p1 c1 s1 p2 c2 s2.
      instruction_PHP s b1 i1 a1 = Inr (p1, c1, s1)
    \<and> instruction_PLP (s1\<lparr>pc := p1, cycles := c1\<rparr>) b2 i2 a2 = Inr (p2, c2, s2)
    \<and> sp s2 = sp s
    \<and> get_byte (enabled_flags s2)
        = ((get_byte (enabled_flags s) AND NOT Flag_B) OR Flag_I) OR Flag_unused
    \<and> isset (enabled_flags s2) Flag_N = isset (enabled_flags s) Flag_N
    \<and> isset (enabled_flags s2) Flag_V = isset (enabled_flags s) Flag_V
    \<and> isset (enabled_flags s2) Flag_D = isset (enabled_flags s) Flag_D
    \<and> isset (enabled_flags s2) Flag_Z = isset (enabled_flags s) Flag_Z
    \<and> isset (enabled_flags s2) Flag_C = isset (enabled_flags s) Flag_C
    \<and> isset (enabled_flags s2) Flag_I \<and> isset (enabled_flags s2) Flag_unused
    \<and> \<not> isset (enabled_flags s2) Flag_B"
  using assms php_plp_flags[OF assms(1)] set_byte_sets_I_reserved(1,2)
  by (simp add: instruction_PHP_def instruction_PLP_def stack_push_ok stack_pop_ok as_int_def)

theorem php_plp_roundtrip_witness:
  "flags_ok (enabled_flags carry_state) \<and> 0 \<le> sp carry_state \<and> sp carry_state \<le> 255
   \<and> get_byte (enabled_flags carry_state) = 0xA1
   \<and> (\<exists>p1 c1 s1 p2 c2 s2.
        instruction_PHP carry_state 0x08 (''PHP'', 1, 3, 0) 0 = Inr (p1, c1, s1)
      \<and> instruction_PLP (s1\<lparr>pc := p1, cycles := c1\<rparr>) 0x28 (''PLP'', 1, 4, 0) 0
          = Inr (p2, c2, s2)
      \<and> sp s2 = 0xFD \<and> get_byte (enabled_flags s2) = 0xA5
      \<and> isset (enabled_flags s2) Flag_N \<and> isset (enabled_flags s2) Flag_C
      \<and> isset (enabled_flags s2) Flag_I)"
proof -
  have h1: "flags_ok (enabled_flags carry_state)"
    by (simp add: carry_state_def flags_ok_def VALUES_def flag_consts)
  have h2: "0 \<le> sp carry_state" and h3: "sp carry_state \<le> 255"
    by (simp_all add: carry_state_def power_on_def)
  have g: "get_byte (enabled_flags carry_state) = 0xA1"
    by (simp add: carry_state_def get_byte_def flag_consts)
  have i: "isset (enabled_flags carry_state) Flag_N" "isset (enabled_flags carry_state) Flag_C"
    by (simp_all add: carry_state_def isset_def flag_consts)
  have s: "sp carry_state = 0xFD" by (simp add: carry_state_def power_on_def)
  from php_plp_roundtrip [OF h1 h2 h3, of "0x08" "(''PHP'', 1, 3, 0)" 0 "0x28" "(''PLP'', 1, 4, 0)" 0]
  show ?thesis unfolding g using h1 h2 h3 i s by (simp add: flag_consts) blast
qed

subsection \<open>One step of the CPU\<close>

text \<open>
  Claim C1 asks for three PPU steps per CPU cycle. The loop of \<open>CPU.run\<close> is
  \<open>for _ in range(self.cycles - cur_cycles): self.ppu.run(self)\<close>, one PPU step per CPU
  cycle: a NOP advances the CPU by 2 cycles and the PPU by 2, not 6.
\<close>

theorem run_ppu_cycles_evaluated:
  "(case run nop_state of Inl e \<Rightarrow> False
    | Inr s' \<Rightarrow> cycles s' - cycles nop_state = 2
               \<and> ppu_cycles (ppu s') - ppu_cycles (ppu nop_state) = 2)"
  by code_simp

lemma opcodes_BRK: "opcodes 0x00 = Some (''BRK'', 1, 7, 0)"
  by (simp add: opcodes_def opcode_table_def)

lemma fetch_BRK: "get_current_pc_byte s = Inr (Some 0x00) \<Longrightarrow> fetch s = Inl Die"
  by (simp add: fetch_def get_current_instruction_def get_instruction_at_def opcodes_BRK
      instr0_def instr1_def as_int_def)

text \<open>
  Claim C2 describes what BRK pushes and loads. \<open>CPU.run\<close> raises \<open>Exception("die")\<close> when the
  fetched mnemonic is BRK, before any handler is called: at power-on over a blank memory
  the byte at PC is 0x00, the step ends in that exception, and the CPU it leaves behind
  is the CPU it found: SP is still 0xFD, nothing is on the stack, I and the reserved flag
  are the only flags and PC is still 0x8000.
\<close>

theorem brk_counterexample:
  "get_current_pc_byte power_on = Inr (Some 0x00)
   \<and> run power_on = Inl (Die, Some power_on)
   \<and> sp power_on = 0xFD \<and> pc power_on = 0x8000 \<and> mem power_on 0x01FD = 0
   \<and> enabled_flags power_on = INIT_FLAGS"
proof -
  have h: "get_current_pc_byte power_on = Inr (Some 0x00)" by code_simp
  show ?thesis using h by (simp add: run_def fetch_BRK power_on_def blank_memory_def)
qed

text \<open>
  Claim C2 as the code has it. From any state whose byte at PC is 0x00, \<open>CPU.run\<close> raises
  \<open>Exception("die")\<close> and leaves the CPU as it found it: no handler runs, nothing is
  pushed, no flag or register changes and PC is not loaded from any vector.
\<close>

theorem brk_run_dies:
  "get_current_pc_byte s = Inr (Some 0x00) \<Longrightarrow> run s = Inl (Die, Some s)"
  by (simp add: run_def fetch_BRK)

theorem brk_run_dies_witness:
  "get_current_pc_byte carry_state = Inr (Some 0x00)
   \<and> run carry_state = Inl (Die, Some carry_state)"
proof -
  have h: "get_current_pc_byte carry_state = Inr (Some 0x00)" by code_simp
  show ?thesis using h brk_run_dies [OF h] by simp
qed

subsection \<open>Page crossing\<close>

text \<open>
  Claim C5 charges a taken branch one more cycle exactly when the target and the address
  after the instruction lie on different 256-byte pages. The code compares
  \<open>page_num\<close> of the address of the instruction with \<open>page_num\<close> of the target, and
  \<open>page_num\<close> divides by 0xFF. A BEQ at 0x00FD with offset 0 (next address 0x00FF, target
  0x00FF) takes 4 cycles; the BEQ at 0x01FE with offset 0x02 takes 3.
\<close>

theorem beq_cycles_evaluated:
  "(case run (beq_state 0x00FD 0x00) of Inl e \<Rightarrow> False
    | Inr s' \<Rightarrow> pc s' = 0x00FF \<and> cycles s' = 4)
   \<and> (case run (beq_state 0x01FE 0x02) of Inl e \<Rightarrow> False
    | Inr s' \<Rightarrow> pc s' = 0x0202 \<and> cycles s' = 3)"
  by code_simp

text \<open>
  Claim C6 charges LDA absolute,X the page-cross cycle exactly when the low byte of the
  operand plus X exceeds 0xFF, whatever PC is. The code compares \<open>page_num\<close> of PC with
  \<open>page_num\<close> of the indexed address: LDA $8010,X with X = 0 takes 5 cycles at PC 0x9000
  and 4 cycles at PC 0x8000.
\<close>

theorem lda_absx_penalty_evaluated:
  "(case run (lda_absx_state 0x9000) of Inl e \<Rightarrow> False
    | Inr s' \<Rightarrow> pc s' = 0x9003 \<and> cycles s' = 5)
   \<and> (case run (lda_absx_state 0x8000) of Inl e \<Rightarrow> False
    | Inr s' \<Rightarrow> pc s' = 0x8003 \<and> cycles s' = 4)"
  by code_simp

subsection \<open>Register widths\<close>








lemma byte_ok_mod [simp]: "byte_ok (v mod 0x100)"
  by (simp add: byte_ok_def)

lemma reg_ok_mod [simp]: "reg_ok (v mod 0x100)"
  unfolding reg_ok_def by presburger




lemma byte_ok_andnot80: "byte_ok v \<Longrightarrow> byte_ok (v AND NOT 0x80)"
  unfolding byte_ok_def using AND_upper1[of v "NOT 0x80"] by (simp add: and_nonnegative_int_iff)


lemma as_int_Inr_iff [simp]: "(as_int v = Inr d) = (v = Some d)"
  by (cases v) (simp_all add: as_int_def)



lemma flag_fields [simp]:
  "acc (flag_set s f) = acc s" "x (flag_set s f) = x s" "y (flag_set s f) = y s"
  "sp (flag_set s f) = sp s" "pc (flag_set s f) = pc s" "cycles (flag_set s f) = cycles s"
  "mem (flag_set s f) = mem s" "ppu (flag_set s f) = ppu s" "is_mirror (flag_set s f) = is_mirror s"
  "acc (flag_clear s f) = acc s" "x (flag_clear s f) = x s" "y (flag_clear s f) = y s"
  "sp (flag_clear s f) = sp s" "pc (flag_clear s f) = pc s" "cycles (flag_clear s f) = cycles s"
  "mem (flag_clear s f) = mem s" "ppu (flag_clear s f) = ppu s"
  "is_mirror (flag_clear s f) = is_mirror s"
  "acc (flag_set_if c s f) = acc s" "x (flag_set_if c s f) = x s" "y (flag_set_if c s f) = y s"
  "sp (flag_set_if c s f) = sp s" "pc (flag_set_if c s f) = pc s"
  "cycles (flag_set_if c s f) = cycles s"
  "mem (flag_set_if c s f) = mem s" "ppu (flag_set_if c s f) = ppu s"
  "is_mirror (flag_set_if c s f) = is_mirror s"
  by (simp_all add: flag_set_def flag_clear_def flag_set_if_def)

lemma bus_ok_frame [simp]:
  "bus_ok (flag_set s f) = bus_ok s" "bus_ok (flag_clear s f) = bus_ok s"
  "bus_ok (flag_set_if c s f) = bus_ok s"
  "bus_ok (s\<lparr>acc := v\<rparr>) = bus_ok s" "bus_ok (s\<lparr>x := v\<rparr>) = bus_ok s"
  "bus_ok (s\<lparr>y := v\<rparr>) = bus_ok s" "bus_ok (s\<lparr>sp := v\<rparr>) = bus_ok s"
  "bus_ok (s\<lparr>pc := v\<rparr>) = bus_ok s" "bus_ok (s\<lparr>cycles := v\<rparr>) = bus_ok s"
  "bus_ok (s\<lparr>enabled_flags := fl\<rparr>) = bus_ok s"
  by (simp_all add: bus_ok_def)

lemma regs_ok_frame [simp]:
  "regs_ok (flag_set s f) = regs_ok s" "regs_ok (flag_clear s f) = regs_ok s"
  "regs_ok (flag_set_if c s f) = regs_ok s"
  "regs_ok (s\<lparr>pc := v\<rparr>) = regs_ok s" "regs_ok (s\<lparr>cycles := v\<rparr>) = regs_ok s"
  "regs_ok (s\<lparr>enabled_flags := fl\<rparr>) = regs_ok s"
  by (simp_all add: regs_ok_def)

lemma mem_read_frame [simp]:
  "mem_read (flag_set s f) a = mem_read s a" "mem_read (flag_clear s f) a = mem_read s a"
  "mem_read (flag_set_if c s f) a = mem_read s a"
  "mem_read (s\<lparr>acc := v\<rparr>) a = mem_read s a" "mem_read (s\<lparr>x := v\<rparr>) a = mem_read s a"
  "mem_read (s\<lparr>y := v\<rparr>) a = mem_read s a" "mem_read (s\<lparr>sp := v\<rparr>) a = mem_read s a"
  "mem_read (s\<lparr>enabled_flags := fl\<rparr>) a = mem_read s a"
  by (simp_all add: mem_read_def Let_def)




lemma reg_ok_dec: "reg_ok v \<Longrightarrow> 0 \<le> v \<Longrightarrow> reg_ok (v - 1)"
  by (simp add: reg_ok_def)

lemma reg_ok_inc: "reg_ok v \<Longrightarrow> v \<noteq> 0xFF \<Longrightarrow> reg_ok (v + 1)"
  by (simp add: reg_ok_def)

lemma index_by_other [simp]: "byte \<notin> set ops \<Longrightarrow> index_by r byte addr ops zp_op = addr"
  by (simp add: index_by_def)

lemma index_addr_other [simp]:
  "byte \<notin> set x_ops \<Longrightarrow> byte \<notin> set y_ops \<Longrightarrow>
   index_addr s byte addr x_ops zp_op y_ops = addr"
  by (simp add: index_addr_def)

lemma deref_addr_other [simp]:
  "byte \<noteq> a \<Longrightarrow> byte \<noteq> b \<Longrightarrow> deref_addr s byte addr a b = Inr addr"
  by (simp add: deref_addr_def)



lemma adc_core_fields [simp]:
  "x (adc_core s d) = x s" "y (adc_core s d) = y s" "sp (adc_core s d) = sp s"
  "pc (adc_core s d) = pc s" "cycles (adc_core s d) = cycles s"
  "bus_ok (adc_core s d) = bus_ok s" "reg_ok (acc (adc_core s d))"
  by (simp_all add: adc_core_def Let_def)

lemma sbc_core_fields [simp]:
  "x (sbc_core s d) = x s" "y (sbc_core s d) = y s" "sp (sbc_core s d) = sp s"
  "pc (sbc_core s d) = pc s" "cycles (sbc_core s d) = cycles s"
  "bus_ok (sbc_core s d) = bus_ok s" "reg_ok (acc (sbc_core s d))"
  by (simp_all add: sbc_core_def Let_def)
























































































end
